theory Spec2Isabelle
  imports Complex_Main
begin

section \<open>JavaScript values used by the matching service\<close>

text \<open>
  The matching service (services/matching-service/server.js) computes with JavaScript
  numbers, which are IEEE-754 double-precision values.  A finite number is modelled by
  the rational it denotes, the other values are NaN and the two infinities.  Every
  addition, multiplication and division rounds its exact result to the nearest double,
  as the language does.  The sign of zero is not modelled: the only divisors in the
  program are array lengths, which are never negative zero.
\<close>

datatype jsnum = Num rat | NaN | PInf | NInf

subsection \<open>Rounding to double precision\<close>

text \<open>The number of binary digits of a positive integer.\<close>

function bit_length :: "int \<Rightarrow> int" where
  "bit_length n = (if n \<le> 0 then 0 else 1 + bit_length (n div 2))"
  by pat_completeness auto
termination
  by (relation "measure nat") auto

declare bit_length.simps [simp del]

text \<open>
  The binary exponent of a positive rational \<open>x\<close>: the integer \<open>e\<close> with
  \<open>2^e \<le> x < 2^(e+1)\<close>.  The difference of the bit lengths of numerator and
  denominator is that exponent or one more.
\<close>

definition ilog2 :: "rat \<Rightarrow> int" where
  "ilog2 x =
     (let k = bit_length (fst (quotient_of x)) - bit_length (snd (quotient_of x))
      in if 2 powi k \<le> x then k else k - 1)"

text \<open>The nearest integer, a tie going to the even one.\<close>

definition round_half_even :: "rat \<Rightarrow> int" where
  "round_half_even t =
     (let n = \<lfloor>t\<rfloor>; d = t - of_int n
      in if d < 1 / 2 then n else if 1 / 2 < d then n + 1 else if even n then n else n + 1)"

text \<open>
  Round to nearest, ties to even, in binary64: 53 significant bits, so a number of
  exponent \<open>e\<close> is rounded to a multiple of \<open>2^(e-52)\<close>; below the exponent -1022 the
  spacing stays \<open>2^(-1074)\<close> (subnormal numbers); a result that reaches \<open>2^1024\<close>
  overflows to an infinity.
\<close>

definition to_double :: "rat \<Rightarrow> jsnum" where
  "to_double x =
     (if x = 0 then Num 0
      else
        (let e = ilog2 \<bar>x\<bar>;
             q = 2 powi (max e (- 1022) - 52);
             n = round_half_even (x / q)
         in if 1024 \<le> e \<or> (e = 1023 \<and> 2 ^ 53 \<le> \<bar>n\<bar>)
            then (if 0 < x then PInf else NInf)
            else Num (of_int n * q)))"

text \<open>The double that a decimal literal of the source denotes.\<close>

definition dbl :: "rat \<Rightarrow> rat" where
  "dbl x = (case to_double x of Num r \<Rightarrow> r | _ \<Rightarrow> 0)"

subsection \<open>Values and operators\<close>

text \<open>
  A property read from an object literal yields a number, \<open>undefined\<close> (modelled by
  \<open>None\<close>), or a function or object inherited from \<open>Object.prototype\<close>.
\<close>

datatype jsval = Number jsnum | ProtoObj

fun to_number :: "jsval \<Rightarrow> jsnum" where
  "to_number (Number n) = n"
| "to_number ProtoObj = NaN"

fun truthy_num :: "jsnum \<Rightarrow> bool" where
  "truthy_num (Num r) = (r \<noteq> 0)"
| "truthy_num NaN = False"
| "truthy_num PInf = True"
| "truthy_num NInf = True"

fun truthy :: "jsval \<Rightarrow> bool" where
  "truthy (Number n) = truthy_num n"
| "truthy ProtoObj = True"

text \<open>\<open>x || d\<close> where \<open>x\<close> may be \<open>undefined\<close>.\<close>

fun js_or :: "jsval option \<Rightarrow> jsval \<Rightarrow> jsval" where
  "js_or None d = d"
| "js_or (Some v) d = (if truthy v then v else d)"

fun js_neg :: "jsnum \<Rightarrow> jsnum" where
  "js_neg (Num a) = Num (- a)"
| "js_neg NaN = NaN"
| "js_neg PInf = NInf"
| "js_neg NInf = PInf"

fun js_add :: "jsnum \<Rightarrow> jsnum \<Rightarrow> jsnum" where
  "js_add (Num a) (Num b) = to_double (a + b)"
| "js_add NaN _ = NaN"
| "js_add _ NaN = NaN"
| "js_add PInf NInf = NaN"
| "js_add NInf PInf = NaN"
| "js_add PInf _ = PInf"
| "js_add _ PInf = PInf"
| "js_add NInf _ = NInf"
| "js_add _ NInf = NInf"

definition js_sub :: "jsnum \<Rightarrow> jsnum \<Rightarrow> jsnum" where
  "js_sub a b = js_add a (js_neg b)"

fun js_mul :: "jsnum \<Rightarrow> jsnum \<Rightarrow> jsnum" where
  "js_mul (Num a) (Num b) = to_double (a * b)"
| "js_mul NaN _ = NaN"
| "js_mul _ NaN = NaN"
| "js_mul (Num a) PInf = (if a = 0 then NaN else if 0 < a then PInf else NInf)"
| "js_mul (Num a) NInf = (if a = 0 then NaN else if 0 < a then NInf else PInf)"
| "js_mul PInf (Num b) = (if b = 0 then NaN else if 0 < b then PInf else NInf)"
| "js_mul NInf (Num b) = (if b = 0 then NaN else if 0 < b then NInf else PInf)"
| "js_mul PInf PInf = PInf"
| "js_mul NInf NInf = PInf"
| "js_mul PInf NInf = NInf"
| "js_mul NInf PInf = NInf"

text \<open>Division: \<open>0/0\<close> is NaN, a non-zero number over zero is an infinity.\<close>

fun js_div :: "jsnum \<Rightarrow> jsnum \<Rightarrow> jsnum" where
  "js_div (Num a) (Num b) =
     (if b = 0 then (if a = 0 then NaN else if 0 < a then PInf else NInf)
      else to_double (a / b))"
| "js_div NaN _ = NaN"
| "js_div _ NaN = NaN"
| "js_div (Num a) PInf = Num 0"
| "js_div (Num a) NInf = Num 0"
| "js_div PInf (Num b) = (if 0 \<le> b then PInf else NInf)"
| "js_div NInf (Num b) = (if 0 \<le> b then NInf else PInf)"
| "js_div PInf PInf = NaN"
| "js_div PInf NInf = NaN"
| "js_div NInf PInf = NaN"
| "js_div NInf NInf = NaN"

fun js_abs :: "jsnum \<Rightarrow> jsnum" where
  "js_abs (Num a) = Num \<bar>a\<bar>"
| "js_abs NaN = NaN"
| "js_abs PInf = PInf"
| "js_abs NInf = PInf"

text \<open>\<open>Math.min\<close> and \<open>Math.max\<close> of two numbers: NaN if either is NaN.\<close>

fun js_min :: "jsnum \<Rightarrow> jsnum \<Rightarrow> jsnum" where
  "js_min (Num a) (Num b) = Num (min a b)"
| "js_min NaN _ = NaN"
| "js_min _ NaN = NaN"
| "js_min NInf _ = NInf"
| "js_min _ NInf = NInf"
| "js_min PInf b = b"
| "js_min a PInf = a"

fun js_max :: "jsnum \<Rightarrow> jsnum \<Rightarrow> jsnum" where
  "js_max (Num a) (Num b) = Num (max a b)"
| "js_max NaN _ = NaN"
| "js_max _ NaN = NaN"
| "js_max PInf _ = PInf"
| "js_max _ PInf = PInf"
| "js_max NInf b = b"
| "js_max a NInf = a"

text \<open>
  \<open>Math.round\<close>: the nearest integer, a tie going up.  It is exact: the result is a
  double whenever the argument is.
\<close>

definition round_half_up :: "rat \<Rightarrow> int" where
  "round_half_up x = \<lfloor>x + 1 / 2\<rfloor>"

fun js_round :: "jsnum \<Rightarrow> jsnum" where
  "js_round (Num a) = Num (of_int (round_half_up a))"
| "js_round NaN = NaN"
| "js_round PInf = PInf"
| "js_round NInf = NInf"

text \<open>The comparisons \<open>>=\<close> and \<open>>\<close>: false as soon as an operand is NaN.\<close>

fun js_ge :: "jsnum \<Rightarrow> jsnum \<Rightarrow> bool" where
  "js_ge (Num a) (Num b) = (b \<le> a)"
| "js_ge NaN _ = False"
| "js_ge _ NaN = False"
| "js_ge PInf _ = True"
| "js_ge _ NInf = True"
| "js_ge NInf _ = False"
| "js_ge _ PInf = False"

fun js_gt :: "jsnum \<Rightarrow> jsnum \<Rightarrow> bool" where
  "js_gt (Num a) (Num b) = (b < a)"
| "js_gt NaN _ = False"
| "js_gt _ NaN = False"
| "js_gt PInf PInf = False"
| "js_gt NInf NInf = False"
| "js_gt PInf _ = True"
| "js_gt _ NInf = True"
| "js_gt NInf _ = False"
| "js_gt _ PInf = False"

text \<open>The \<open>length\<close> of an array, as a number.\<close>

definition len :: "'a list \<Rightarrow> jsnum" where
  "len xs = Num (of_nat (length xs))"

subsection \<open>Object literals used as lookup tables\<close>

text \<open>
  \<open>table[key]\<close> on an object literal finds the literal's own properties first and then
  the properties every object inherits from \<open>Object.prototype\<close>, which are functions
  (or, for \<open>__proto__\<close>, the prototype object itself).  Any other key gives
  \<open>undefined\<close>.  A key that is itself \<open>undefined\<close> is looked up as the string
  \<open>undefined\<close>.
\<close>

definition object_prototype_keys :: "string list" where
  "object_prototype_keys =
     [''constructor'', ''__defineGetter__'', ''__defineSetter__'', ''hasOwnProperty'',
      ''__lookupGetter__'', ''__lookupSetter__'', ''isPrototypeOf'',
      ''propertyIsEnumerable'', ''toString'', ''valueOf'', ''__proto__'',
      ''toLocaleString'']"

definition key_string :: "string option \<Rightarrow> string" where
  "key_string k = (case k of None \<Rightarrow> ''undefined'' | Some s \<Rightarrow> s)"

definition obj_get :: "(string \<times> rat) list \<Rightarrow> string \<Rightarrow> jsval option" where
  "obj_get own k =
     (case map_of own k of
        Some v \<Rightarrow> Some (Number (Num v))
      | None \<Rightarrow> if List.member object_prototype_keys k then Some ProtoObj else None)"

subsection \<open>Strings\<close>

text \<open>
  Strings are lists of characters and are taken to be ASCII text.  On ASCII text
  \<open>toLowerCase\<close> lowers the letters A to Z and \<open>trim\<close> removes the space and the
  control characters 9 to 13, which is all the white space ASCII has.  Characters beyond
  ASCII, which JavaScript would lower or trim according to Unicode, are left alone.
\<close>

definition toLowerCase_char :: "char \<Rightarrow> char" where
  "toLowerCase_char c =
     (let n = (of_char c :: nat) in if 65 \<le> n \<and> n \<le> 90 then char_of (n + 32) else c)"

definition toLowerCase :: "string \<Rightarrow> string" where
  "toLowerCase s = map toLowerCase_char s"

definition is_space :: "char \<Rightarrow> bool" where
  "is_space c = (let n = (of_char c :: nat) in n = 32 \<or> (9 \<le> n \<and> n \<le> 13))"

definition trim :: "string \<Rightarrow> string" where
  "trim s = rev (dropWhile is_space (rev (dropWhile is_space s)))"

text \<open>\<open>s.split(",")\<close>: the pieces between commas; never an empty array.\<close>

fun split_comma :: "string \<Rightarrow> string list" where
  "split_comma [] = [[]]"
| "split_comma (c # cs) =
     (if c = CHR '','' then [] # split_comma cs
      else (case split_comma cs of
              [] \<Rightarrow> [[c]]
            | p # ps \<Rightarrow> (c # p) # ps))"

text \<open>\<open>s.includes(t)\<close> on strings: \<open>t\<close> occurs in \<open>s\<close> as a contiguous piece.\<close>

fun starts_with :: "string \<Rightarrow> string \<Rightarrow> bool" where
  "starts_with s [] = True"
| "starts_with [] (d # t) = False"
| "starts_with (c # s) (d # t) = (c = d \<and> starts_with s t)"

fun str_includes :: "string \<Rightarrow> string \<Rightarrow> bool" where
  "str_includes [] t = (t = [])"
| "str_includes (c # s) t = (starts_with (c # s) t \<or> str_includes s t)"

text \<open>A string is falsy exactly when it is empty; \<open>undefined\<close> is falsy.\<close>

definition falsy_string :: "string option \<Rightarrow> bool" where
  "falsy_string s = (case s of None \<Rightarrow> True | Some t \<Rightarrow> t = [])"

section \<open>The scoring engine: class MatchingAlgorithm\<close>

text \<open>
  Arguments that the callers read from fetched JSON may be absent: an absent value
  (\<open>undefined\<close>) is \<open>None\<close>.  Arrays are lists of strings.
\<close>

definition calculateSkillMatch ::
  "string list option \<Rightarrow> string list option \<Rightarrow> string list option \<Rightarrow> jsnum" where
  "calculateSkillMatch userSkills requiredSkills optionalSkills =
     (case (userSkills, requiredSkills) of
        (None, _) \<Rightarrow> Num 0
      | (_, None) \<Rightarrow> Num 0
      | (Some us, Some rs) \<Rightarrow>
          (let os = (case optionalSkills of None \<Rightarrow> [] | Some l \<Rightarrow> l);
               userSkillsLower = map toLowerCase us;
               requiredSkillsLower = map toLowerCase rs;
               optionalSkillsLower = map toLowerCase os;
               requiredMatches =
                 len (filter (\<lambda>skill. List.member userSkillsLower skill) requiredSkillsLower);
               requiredScore =
                 js_mul (js_div requiredMatches (len requiredSkillsLower)) (Num 70);
               optionalMatches =
                 len (filter (\<lambda>skill. List.member userSkillsLower skill) optionalSkillsLower);
               optionalScore =
                 (if js_gt (len optionalSkillsLower) (Num 0)
                  then js_mul (js_div optionalMatches (len optionalSkillsLower)) (Num 30)
                  else Num 0)
           in js_min (Num 100) (js_add requiredScore optionalScore)))"

definition experienceMap :: "(string \<times> rat) list" where
  "experienceMap =
     [(''Entry Level'', 1), (''Mid Level'', 2), (''Senior Level'', 3), (''Expert'', 4)]"

definition difficultyMap :: "(string \<times> rat) list" where
  "difficultyMap = [(''Beginner'', 1), (''Intermediate'', 2), (''Advanced'', 3)]"

definition calculateExperienceMatch :: "string option \<Rightarrow> string option \<Rightarrow> jsnum" where
  "calculateExperienceMatch userExperience projectDifficulty =
     (let userLevel = js_or (obj_get experienceMap (key_string userExperience)) (Number (Num 1));
          projectLevel =
            js_or (obj_get difficultyMap (key_string projectDifficulty)) (Number (Num 1));
          difference = js_abs (js_sub (to_number userLevel) (to_number projectLevel))
      in js_max (Num 0) (js_sub (Num 100) (js_mul difference (Num 25))))"

definition availabilityMap :: "(string \<times> rat) list" where
  "availabilityMap =
     [(''Full-time'', 100), (''Part-time'', 75), (''Weekends'', 50), (''Flexible'', 85)]"

text \<open>The second argument (the project's duration) is not used by the source.\<close>

definition calculateAvailabilityMatch :: "string option \<Rightarrow> string option \<Rightarrow> jsval" where
  "calculateAvailabilityMatch userAvailability projectDuration =
     js_or (obj_get availabilityMap (key_string userAvailability)) (Number (Num 50))"

definition location_parts :: "string \<Rightarrow> string list" where
  "location_parts s = map (\<lambda>part. toLowerCase (trim part)) (split_comma s)"

definition calculateLocationMatch :: "string option \<Rightarrow> string option \<Rightarrow> jsnum" where
  "calculateLocationMatch userLocation projectLocation =
     (if falsy_string userLocation \<or> falsy_string projectLocation then Num 50
      else
        (let ul = the userLocation; pl = the projectLocation in
         if toLowerCase ul = toLowerCase pl then Num 100
         else
           (let userParts = location_parts ul;
                projectParts = location_parts pl;
                commonParts = filter (\<lambda>part. List.member projectParts part) userParts
            in js_min (Num 100)
                 (js_mul (js_div (len commonParts)
                            (js_max (len userParts) (len projectParts)))
                    (Num 100)))))"

text \<open>
  The user's preferences object: each property may be absent.  The whole object may be
  absent as well.
\<close>

record preferences =
  projectTypes :: "string list option"
  interests :: "string list option"
  availability :: "string option"

definition calculateInterestMatch ::
  "preferences option \<Rightarrow> string option \<Rightarrow> string list option \<Rightarrow> jsnum" where
  "calculateInterestMatch userPreferences projectCategory projectTags =
     (case userPreferences of
        None \<Rightarrow> Num 50
      | Some prefs \<Rightarrow>
         (case projectTypes prefs of
            None \<Rightarrow> Num 50
          | Some types \<Rightarrow>
             (let score0 = Num 0;
                  score1 =
                    (if (case projectCategory of
                           None \<Rightarrow> False
                         | Some c \<Rightarrow> List.member types c)
                     then js_add score0 (Num 60) else score0);
                  score2 =
                    (case (projectTags, interests prefs) of
                       (Some tags, Some ints) \<Rightarrow>
                         (let matchingTags =
                                filter (\<lambda>tag. list_ex (\<lambda>interest.
                                   str_includes (toLowerCase interest) (toLowerCase tag)) ints)
                                  tags
                          in js_add score1
                               (js_mul (js_div (len matchingTags) (len tags)) (Num 40)))
                     | _ \<Rightarrow> score1)
              in js_min (Num 100) score2)))"

text \<open>
  The factor object built by the callers has exactly these five properties, in this
  order; \<open>Object.entries\<close> lists them in that order.
\<close>

record factors =
  skillMatch :: jsval
  experienceMatch :: jsval
  availabilityMatch :: jsval
  locationMatch :: jsval
  interestMatch :: jsval

definition entries :: "factors \<Rightarrow> (string \<times> jsval) list" where
  "entries f =
     [(''skillMatch'', skillMatch f), (''experienceMatch'', experienceMatch f),
      (''availabilityMatch'', availabilityMatch f), (''locationMatch'', locationMatch f),
      (''interestMatch'', interestMatch f)]"

definition weights :: "(string \<times> rat) list" where
  "weights =
     [(''skillMatch'', dbl (4 / 10)), (''experienceMatch'', dbl (2 / 10)),
      (''availabilityMatch'', dbl (15 / 100)), (''locationMatch'', dbl (1 / 10)),
      (''interestMatch'', dbl (15 / 100))]"

text \<open>One turn of the loop over the entries: \<open>totalScore += (score || 0) * (weights[factor] || 0)\<close>.\<close>

definition add_entry :: "jsnum \<Rightarrow> string \<times> jsval \<Rightarrow> jsnum" where
  "add_entry totalScore e =
     js_add totalScore
       (js_mul (to_number (js_or (Some (snd e)) (Number (Num 0))))
               (to_number (js_or (obj_get weights (fst e)) (Number (Num 0)))))"

definition overall_of_entries :: "(string \<times> jsval) list \<Rightarrow> jsnum" where
  "overall_of_entries es = js_round (foldl add_entry (Num 0) es)"

definition calculateOverallMatch :: "factors \<Rightarrow> jsnum" where
  "calculateOverallMatch f = overall_of_entries (entries f)"

text \<open>
  The explanation strings are canned; each is a constructor here, the first one carrying
  the rounded percentage that the source interpolates into the text.
\<close>

datatype reason =
    StrongSkillMatch jsnum
  | ExperienceAligned
  | AvailabilityMatches
  | SameLocation
  | MatchesInterests

definition generateMatchReasons :: "factors \<Rightarrow> reason list" where
  "generateMatchReasons f =
     (if js_gt (to_number (skillMatch f)) (Num 80)
      then [StrongSkillMatch (js_round (to_number (skillMatch f)))] else []) @
     (if js_gt (to_number (experienceMatch f)) (Num 75) then [ExperienceAligned] else []) @
     (if js_gt (to_number (availabilityMatch f)) (Num 80) then [AvailabilityMatches] else []) @
     (if js_gt (to_number (locationMatch f)) (Num 90) then [SameLocation] else []) @
     (if js_gt (to_number (interestMatch f)) (Num 70) then [MatchesInterests] else [])"

section \<open>Entity snapshots fetched from the collaborator services\<close>

text \<open>
  The user and the project are JSON documents fetched over HTTP.  Only the properties
  the matching service reads are kept.  A property that may be missing from the document
  is an option; reading a property of a missing object throws a \<open>TypeError\<close>.
\<close>

record profile =
  skills :: "string list option"
  experience :: "string option"
  location :: "string option"

record user =
  user_id :: nat
  profile :: "profile option"
  preferences :: "preferences option"

record collaborator =
  collab_userId :: "nat option"

record project =
  project_id :: nat
  collaborators :: "collaborator list option"
  requiredSkills :: "string list option"
  optionalSkills :: "string list option"
  difficulty :: "string option"
  estimatedDuration :: "string option"
  project_location :: "string option"
  category :: "string option"
  tags :: "string list option"

datatype error = TypeError | HttpError | ValidationError

section \<open>The Match collection\<close>

record feedback =
  rating :: "rat option"
  comment :: "string option"
  helpful :: "bool option"

record match =
  match_id :: nat
  userId :: nat
  projectId :: nat
  matchScore :: jsnum
  matchFactors :: factors
  matchReasons :: "reason list"
  status :: string
  feedback :: "feedback option"
  createdAt :: nat
  updatedAt :: nat

text \<open>\<open>Match.findOne({ userId, projectId })\<close>: the first document of that pair, if any.\<close>

definition findOne :: "match list \<Rightarrow> nat \<Rightarrow> nat \<Rightarrow> match option" where
  "findOne st u p = List.find (\<lambda>m. userId m = u \<and> projectId m = p) st"

text \<open>The identifier given to a new document: one not used in the collection.\<close>

definition fresh_id :: "match list \<Rightarrow> nat" where
  "fresh_id st = Suc (foldr max (map match_id st) 0)"

text \<open>
  \<open>new Match({ userId, projectId, matchScore, matchFactors, matchReasons })\<close>: the status
  takes the schema's default \<open>pending\<close>, there is no feedback, both dates are the
  current time.
\<close>

definition new_match ::
  "match list \<Rightarrow> nat \<Rightarrow> nat \<Rightarrow> nat \<Rightarrow> jsnum \<Rightarrow> factors \<Rightarrow> reason list \<Rightarrow> match" where
  "new_match st t u p score f rs =
     \<lparr>match_id = fresh_id st, userId = u, projectId = p, matchScore = score,
      matchFactors = f, matchReasons = rs, status = ''pending'', feedback = None,
      createdAt = t, updatedAt = t\<rparr>"

text \<open>
  \<open>match.save()\<close> runs the validators that \<open>matchSchema\<close> declares: \<open>matchScore\<close>
  and the five factors are of type Number with \<open>min: 0\<close> and \<open>max: 100\<close>.  A value
  that is not a number (NaN, or a function) cannot be cast to Number, and an infinity
  breaks a bound; either way the save is rejected with a validation error.  The
  identifiers, the reasons and the status of a new document are always well-formed.
\<close>

fun valid_number :: "jsval \<Rightarrow> bool" where
  "valid_number (Number (Num r)) = (0 \<le> r \<and> r \<le> 100)"
| "valid_number (Number NaN) = False"
| "valid_number (Number PInf) = False"
| "valid_number (Number NInf) = False"
| "valid_number ProtoObj = False"

definition matchSchema_valid :: "match \<Rightarrow> bool" where
  "matchSchema_valid m =
     (valid_number (Number (matchScore m)) \<and>
      valid_number (skillMatch (matchFactors m)) \<and>
      valid_number (experienceMatch (matchFactors m)) \<and>
      valid_number (availabilityMatch (matchFactors m)) \<and>
      valid_number (locationMatch (matchFactors m)) \<and>
      valid_number (interestMatch (matchFactors m)))"

section \<open>The matching pipeline\<close>

text \<open>
  The state the pipeline changes: the Match collection, the \<open>match.created\<close> events
  published on the broker (match id, user id, project id, score), and the increments of
  the counter \<open>matching_requests_total\<close> with their two labels.
\<close>

record sys =
  store :: "match list"
  published :: "(nat \<times> nat \<times> nat \<times> jsnum) list"
  metrics :: "(string \<times> string) list"

text \<open>
  What the pipeline reads from outside: the answers of the two collaborator services
  (an \<open>axios.get\<close> that rejects is an \<open>Inl\<close>), whether the broker channel exists,
  and the clock.  The database is taken to be reachable.
\<close>

record env =
  get_user :: "nat \<Rightarrow> error + user"
  get_active_projects :: "error + project list"
  get_project :: "nat \<Rightarrow> error + project"
  get_users_by_skills :: "string \<Rightarrow> error + user list"
  channel_open :: bool
  now :: nat

text \<open>
  \<open>project.collaborators.some((collab) => collab.userId.toString() === userId)\<close>,
  evaluated from the left; a collaborator without \<open>userId\<close> throws.
\<close>

fun some_collab :: "nat \<Rightarrow> collaborator list \<Rightarrow> error + bool" where
  "some_collab uid [] = Inr False"
| "some_collab uid (c # cs) =
     (case collab_userId c of
        None \<Rightarrow> Inl TypeError
      | Some i \<Rightarrow> if i = uid then Inr True else some_collab uid cs)"

text \<open>
  The factor object of a pair.  \<open>user.profile.skills\<close> is read first, so a user
  document without \<open>profile\<close> throws before anything is computed;
  \<open>user.preferences?.availability\<close> is guarded.
\<close>

definition compute_factors :: "user \<Rightarrow> project \<Rightarrow> error + factors" where
  "compute_factors u p =
     (case profile u of
        None \<Rightarrow> Inl TypeError
      | Some pr \<Rightarrow>
          Inr \<lparr>skillMatch =
                 Number (calculateSkillMatch (skills pr) (requiredSkills p) (optionalSkills p)),
               experienceMatch =
                 Number (calculateExperienceMatch (experience pr) (difficulty p)),
               availabilityMatch =
                 calculateAvailabilityMatch
                   (case preferences u of None \<Rightarrow> None | Some q \<Rightarrow> availability q)
                   (estimatedDuration p),
               locationMatch =
                 Number (calculateLocationMatch (location pr) (project_location p)),
               interestMatch =
                 Number (calculateInterestMatch (preferences u) (category p) (tags p))\<rparr>)"

text \<open>
  From \<open>calculateOverallMatch\<close> to the end of the loop body, the same text in both
  generators but for the counter's label: only a score of at least 30 builds a document;
  \<open>save\<close> rejects a document that fails the schema's validation, which throws; after
  the save the event is published if the channel exists and the success counter is
  incremented.
\<close>

definition create_match ::
  "env \<Rightarrow> string \<Rightarrow> nat \<Rightarrow> nat \<Rightarrow> factors \<Rightarrow> sys \<Rightarrow> sys \<times> error option" where
  "create_match e label u p f s =
     (let score = calculateOverallMatch f in
      if js_ge score (Num 30) then
        (let m = new_match (store s) (now e) u p score f (generateMatchReasons f) in
         if matchSchema_valid m then
           (s\<lparr>store := store s @ [m],
              published :=
                (if channel_open e then published s @ [(match_id m, u, p, score)]
                 else published s),
              metrics := metrics s @ [(label, ''success'')]\<rparr>, None)
         else (s, Some ValidationError))
      else (s, None))"

text \<open>The body of the loop of \<open>generateMatchesForUser\<close>, for one project.\<close>

definition user_step :: "env \<Rightarrow> nat \<Rightarrow> user \<Rightarrow> project \<Rightarrow> sys \<Rightarrow> sys \<times> error option" where
  "user_step e uid u p s =
     (case collaborators p of
        None \<Rightarrow> (s, Some TypeError)
      | Some cs \<Rightarrow>
         (case some_collab uid cs of
            Inl err \<Rightarrow> (s, Some err)
          | Inr True \<Rightarrow> (s, None)
          | Inr False \<Rightarrow>
             (case findOne (store s) uid (project_id p) of
                Some existingMatch \<Rightarrow> (s, None)
              | None \<Rightarrow>
                 (case compute_factors u p of
                    Inl err \<Rightarrow> (s, Some err)
                  | Inr f \<Rightarrow> create_match e ''user'' uid (project_id p) f s))))"

text \<open>The \<open>for\<close> loop: an exception leaves it at once, with what was written so far.\<close>

fun user_loop :: "env \<Rightarrow> nat \<Rightarrow> user \<Rightarrow> project list \<Rightarrow> sys \<Rightarrow> sys \<times> error option" where
  "user_loop e uid u [] s = (s, None)"
| "user_loop e uid u (p # ps) s =
     (case user_step e uid u p s of
        (s', Some err) \<Rightarrow> (s', Some err)
      | (s', None) \<Rightarrow> user_loop e uid u ps s')"

text \<open>The \<open>try\<close> block of \<open>generateMatchesForUser\<close>.\<close>

definition try_generateMatchesForUser :: "env \<Rightarrow> nat \<Rightarrow> sys \<Rightarrow> sys \<times> error option" where
  "try_generateMatchesForUser e uid s =
     (case get_user e uid of
        Inl err \<Rightarrow> (s, Some err)
      | Inr u \<Rightarrow>
         (case get_active_projects e of
            Inl err \<Rightarrow> (s, Some err)
          | Inr projects \<Rightarrow> user_loop e uid u projects s))"

text \<open>
  The \<open>catch\<close> block logs, increments the error counter and does not rethrow: the
  function always returns normally.
\<close>

definition catch_error :: "string \<Rightarrow> sys \<times> error option \<Rightarrow> sys" where
  "catch_error label r =
     (case r of
        (s, None) \<Rightarrow> s
      | (s, Some err) \<Rightarrow> s\<lparr>metrics := metrics s @ [(label, ''error'')]\<rparr>)"

definition generateMatchesForUser :: "env \<Rightarrow> nat \<Rightarrow> sys \<Rightarrow> sys" where
  "generateMatchesForUser e uid s = catch_error ''user'' (try_generateMatchesForUser e uid s)"

text \<open>The body of the loop of \<open>generateMatchesForProject\<close>, for one user.\<close>

definition project_step :: "env \<Rightarrow> project \<Rightarrow> user \<Rightarrow> sys \<Rightarrow> sys \<times> error option" where
  "project_step e p u s =
     (case findOne (store s) (user_id u) (project_id p) of
        Some existingMatch \<Rightarrow> (s, None)
      | None \<Rightarrow>
         (case compute_factors u p of
            Inl err \<Rightarrow> (s, Some err)
          | Inr f \<Rightarrow> create_match e ''project'' (user_id u) (project_id p) f s))"

fun project_loop :: "env \<Rightarrow> project \<Rightarrow> user list \<Rightarrow> sys \<Rightarrow> sys \<times> error option" where
  "project_loop e p [] s = (s, None)"
| "project_loop e p (u # us) s =
     (case project_step e p u s of
        (s', Some err) \<Rightarrow> (s', Some err)
      | (s', None) \<Rightarrow> project_loop e p us s')"

text \<open>\<open>requiredSkills.join(",")\<close>.\<close>

fun join_comma :: "string list \<Rightarrow> string" where
  "join_comma [] = []"
| "join_comma [x] = x"
| "join_comma (x # y # ys) = x @ CHR '','' # join_comma (y # ys)"

definition try_generateMatchesForProject :: "env \<Rightarrow> nat \<Rightarrow> sys \<Rightarrow> sys \<times> error option" where
  "try_generateMatchesForProject e pid s =
     (case get_project e pid of
        Inl err \<Rightarrow> (s, Some err)
      | Inr p \<Rightarrow>
         (case requiredSkills p of
            None \<Rightarrow> (s, Some TypeError)
          | Some rs \<Rightarrow>
             (case get_users_by_skills e (join_comma rs) of
                Inl err \<Rightarrow> (s, Some err)
              | Inr users \<Rightarrow> project_loop e p users s)))"

definition generateMatchesForProject :: "env \<Rightarrow> nat \<Rightarrow> sys \<Rightarrow> sys" where
  "generateMatchesForProject e pid s =
     catch_error ''project'' (try_generateMatchesForProject e pid s)"

section \<open>The event consumers\<close>

text \<open>
  A delivered message carries a routing key and a content.  \<open>JSON.parse\<close> either
  rejects the content or yields the event data: \<open>null\<close>, of which no property can be
  read, or a value of which only the identifier (\<open>eventData.userId\<close>,
  \<open>eventData.projectId\<close>) is read; a missing identifier is one that the collaborator
  services do not know.  The consumer answers the broker with \<open>ack\<close>,
  or with \<open>nack(msg, false, false)\<close> whose last argument is the requeue flag.
\<close>

datatype event_data = NullData | EventData nat

datatype content = Unparseable | Parsed event_data

record message =
  content :: content
  routingKey :: string

datatype ack = Ack | Nack bool

text \<open>
  The handlers read the identifier only when the routing key is one they act on; reading
  it from \<open>null\<close> throws a TypeError, outside the generator's own \<open>try\<close>.
\<close>

definition handleUserEvent :: "env \<Rightarrow> event_data \<Rightarrow> string \<Rightarrow> sys \<Rightarrow> error + sys" where
  "handleUserEvent e eventData rk s =
     (if rk = ''user.created'' \<or> rk = ''user.updated'' then
        (case eventData of
           NullData \<Rightarrow> Inl TypeError
         | EventData uid \<Rightarrow> Inr (generateMatchesForUser e uid s))
      else Inr s)"

definition handleProjectEvent :: "env \<Rightarrow> event_data \<Rightarrow> string \<Rightarrow> sys \<Rightarrow> error + sys" where
  "handleProjectEvent e eventData rk s =
     (if rk = ''project.created'' then
        (case eventData of
           NullData \<Rightarrow> Inl TypeError
         | EventData pid \<Rightarrow> Inr (generateMatchesForProject e pid s))
      else Inr s)"

text \<open>
  The two callbacks given to \<open>channel.consume\<close>; a null message is ignored.  An
  exception of \<open>JSON.parse\<close> or of the handler is answered with the negative
  acknowledgement, a normal return of the handler with \<open>ack\<close>.
\<close>

definition consume_user_event :: "env \<Rightarrow> message option \<Rightarrow> sys \<Rightarrow> sys \<times> ack option" where
  "consume_user_event e msg s =
     (case msg of
        None \<Rightarrow> (s, None)
      | Some m \<Rightarrow>
         (case content m of
            Unparseable \<Rightarrow> (s, Some (Nack False))
          | Parsed eventData \<Rightarrow>
             (case handleUserEvent e eventData (routingKey m) s of
                Inl err \<Rightarrow> (s, Some (Nack False))
              | Inr s' \<Rightarrow> (s', Some Ack))))"

definition consume_project_event :: "env \<Rightarrow> message option \<Rightarrow> sys \<Rightarrow> sys \<times> ack option" where
  "consume_project_event e msg s =
     (case msg of
        None \<Rightarrow> (s, None)
      | Some m \<Rightarrow>
         (case content m of
            Unparseable \<Rightarrow> (s, Some (Nack False))
          | Parsed eventData \<Rightarrow>
             (case handleProjectEvent e eventData (routingKey m) s of
                Inl err \<Rightarrow> (s, Some (Nack False))
              | Inr s' \<Rightarrow> (s', Some Ack))))"

text \<open>A sequence of generation runs, each with the outside world as it is at that time.\<close>

datatype trigger = ForUser nat | ForProject nat

fun run :: "env \<times> trigger \<Rightarrow> sys \<Rightarrow> sys" where
  "run (e, ForUser uid) s = generateMatchesForUser e uid s"
| "run (e, ForProject pid) s = generateMatchesForProject e pid s"

definition runs :: "(env \<times> trigger) list \<Rightarrow> sys \<Rightarrow> sys" where
  "runs ts s = fold run ts s"

text \<open>The number of Match documents of a pair.\<close>

definition count_pair :: "match list \<Rightarrow> nat \<Rightarrow> nat \<Rightarrow> nat" where
  "count_pair st u p = length (filter (\<lambda>m. userId m = u \<and> projectId m = p) st)"

section \<open>The status and feedback routes\<close>

text \<open>
  A response is an error (HTTP status and the \<open>error\<close> text) or a success (the
  \<open>message\<close> text and the updated document).
\<close>

text \<open>
  The \<open>:matchId\<close> of the URL is any string.  Mongoose casts it to an ObjectId: a
  string that is no ObjectId (\<open>1\<close>, say) makes the query throw a cast error, any other
  denotes an identifier.
\<close>

datatype match_ref = Malformed | Oid nat




datatype response = ErrorJson nat string | OkJson string match

text \<open>
  \<open>Match.findByIdAndUpdate(matchId, update, { new: true })\<close>: the first document with
  that identifier is updated and returned; without one the result is null.
\<close>

fun findByIdAndUpdate :: "nat \<Rightarrow> (match \<Rightarrow> match) \<Rightarrow> match list \<Rightarrow> match option \<times> match list" where
  "findByIdAndUpdate i upd [] = (None, [])"
| "findByIdAndUpdate i upd (m # ms) =
     (if match_id m = i then (Some (upd m), upd m # ms)
      else (case findByIdAndUpdate i upd ms of (r, ms') \<Rightarrow> (r, m # ms')))"

definition valid_statuses :: "string list" where
  "valid_statuses = [''pending'', ''viewed'', ''interested'', ''applied'', ''rejected'']"

text \<open>
  \<open>PUT /api/matches/:matchId/status\<close>.  The body's \<open>status\<close> is \<open>None\<close> when it
  is missing or not a string.  The arguments are the current time, the identifier of the
  URL, the requested status and the collection.  The status is checked first; an
  exception of the query is caught and answered 500.
\<close>

definition update_status ::
  "nat \<Rightarrow> match_ref \<Rightarrow> string option \<Rightarrow> match list \<Rightarrow> response \<times> match list" where
  "update_status t matchId st_req st =
     (case st_req of
        None \<Rightarrow> (ErrorJson 400 ''Invalid status'', st)
      | Some new_status \<Rightarrow>
         if \<not> List.member valid_statuses new_status then (ErrorJson 400 ''Invalid status'', st)
         else
           (case matchId of
              Malformed \<Rightarrow> (ErrorJson 500 ''Internal server error'', st)
            | Oid i \<Rightarrow>
               (case findByIdAndUpdate i (\<lambda>m. m\<lparr>status := new_status, updatedAt := t\<rparr>) st of
                  (None, st') \<Rightarrow> (ErrorJson 404 ''Match not found'', st')
                | (Some m, st') \<Rightarrow> (OkJson ''Match status updated'' m, st'))))"


section \<open>Reference definitions and sample data\<close>

text \<open>
  The weighted sum as the specification words it: skill 0.40, experience 0.20,
  availability 0.15, location 0.10, interest 0.15.
\<close>

definition weighted_sum :: "rat \<Rightarrow> rat \<Rightarrow> rat \<Rightarrow> rat \<Rightarrow> rat \<Rightarrow> rat" where
  "weighted_sum s x a l i =
     4 / 10 * s + 2 / 10 * x + 15 / 100 * a + 1 / 10 * l + 15 / 100 * i"

text \<open>The level of a tier name as the claim words it: the table's entry, otherwise 1.\<close>

definition level_of :: "(string \<times> rat) list \<Rightarrow> string option \<Rightarrow> rat" where
  "level_of table k = (case map_of table (key_string k) of Some v \<Rightarrow> v | None \<Rightarrow> 1)"

text \<open>A stored match whose status is \<open>applied\<close>.\<close>

definition applied_match :: match where
  "applied_match =
     \<lparr>match_id = 1, userId = 10, projectId = 20, matchScore = Num 72,
      matchFactors =
        \<lparr>skillMatch = Number (Num 100), experienceMatch = Number (Num 50),
         availabilityMatch = Number (Num 75), locationMatch = Number (Num 50),
         interestMatch = Number (Num 40)\<rparr>,
      matchReasons = [StrongSkillMatch (Num 100)], status = ''applied'', feedback = None,
      createdAt = 3, updatedAt = 4\<rparr>"





text \<open>
  Sample users.  The first has a profile and no preferences; the second declares
  preferences; the third is a document without \<open>profile\<close>.
\<close>

definition sample_user :: user where
  "sample_user =
     \<lparr>user_id = 10,
      profile = Some \<lparr>skills = Some [''JavaScript'', ''React''],
                      experience = Some ''Senior Level'',
                      location = Some ''Paris, France''\<rparr>,
      preferences = None\<rparr>"

definition picky_user :: user where
  "picky_user =
     \<lparr>user_id = 11,
      profile = Some \<lparr>skills = Some [''JavaScript'', ''React''],
                      experience = Some ''Senior Level'',
                      location = Some ''Paris, France''\<rparr>,
      preferences = Some \<lparr>projectTypes = Some [''mobile''],
                          interests = Some [''Machine Learning''],
                          availability = None\<rparr>\<rparr>"

definition bare_user :: user where
  "bare_user = \<lparr>user_id = 12, profile = None, preferences = None\<rparr>"

text \<open>
  Sample projects: one asking for a skill the sample users lack, at Beginner level; one
  with an empty list of required skills; one with a collaborator entry that has no
  \<open>userId\<close>; one that fits the sample users well; one more without required skills,
  at Beginner level; one without tags.
\<close>

definition python_project :: project where
  "python_project =
     \<lparr>project_id = 20, collaborators = Some [], requiredSkills = Some [''python''],
      optionalSkills = Some [], difficulty = Some ''Beginner'',
      estimatedDuration = Some ''2 weeks'', project_location = None,
      category = Some ''web'', tags = Some [''learning'']\<rparr>"

definition open_project :: project where
  "open_project =
     \<lparr>project_id = 21, collaborators = Some [], requiredSkills = Some [],
      optionalSkills = Some [], difficulty = Some ''Advanced'',
      estimatedDuration = Some ''2 weeks'', project_location = None,
      category = Some ''web'', tags = Some [''learning'']\<rparr>"

definition broken_project :: project where
  "broken_project =
     \<lparr>project_id = 22, collaborators = Some [\<lparr>collab_userId = None\<rparr>],
      requiredSkills = Some [''javascript'', ''react''],
      optionalSkills = Some [''typescript''], difficulty = Some ''Advanced'',
      estimatedDuration = Some ''2 weeks'', project_location = None,
      category = Some ''web'', tags = Some [''learning'']\<rparr>"

definition web_project :: project where
  "web_project =
     \<lparr>project_id = 23, collaborators = Some [\<lparr>collab_userId = Some 99\<rparr>],
      requiredSkills = Some [''javascript'', ''react''],
      optionalSkills = Some [''typescript''], difficulty = Some ''Advanced'',
      estimatedDuration = Some ''2 weeks'', project_location = None,
      category = Some ''web'', tags = Some [''learning'']\<rparr>"

definition unskilled_project :: project where
  "unskilled_project =
     \<lparr>project_id = 25, collaborators = Some [], requiredSkills = Some [],
      optionalSkills = Some [], difficulty = Some ''Beginner'',
      estimatedDuration = Some ''2 weeks'', project_location = None,
      category = Some ''web'', tags = Some [''learning'']\<rparr>"

definition untagged_project :: project where
  "untagged_project =
     \<lparr>project_id = 24, collaborators = Some [],
      requiredSkills = Some [''javascript'', ''react''],
      optionalSkills = Some [''typescript''], difficulty = Some ''Advanced'',
      estimatedDuration = Some ''2 weeks'', project_location = None,
      category = Some ''web'', tags = Some []\<rparr>"

text \<open>
  A sample outside world: the user service knows the three users, the project service
  lists the given projects and knows four of the sample projects, the channel is open
  and the clock reads 7.
\<close>

definition sample_env :: "project list \<Rightarrow> user list \<Rightarrow> env" where
  "sample_env ps us =
     \<lparr>get_user = (\<lambda>i. case List.find (\<lambda>u. user_id u = i) [sample_user, picky_user, bare_user] of
                          None \<Rightarrow> Inl HttpError | Some u \<Rightarrow> Inr u),
      get_active_projects = Inr ps,
      get_project = (\<lambda>i. case List.find (\<lambda>p. project_id p = i)
                                  [python_project, open_project, broken_project, web_project] of
                             None \<Rightarrow> Inl HttpError | Some p \<Rightarrow> Inr p),
      get_users_by_skills = (\<lambda>q. Inr us),
      channel_open = True,
      now = 7\<rparr>"

definition sample_world :: env where
  "sample_world = sample_env [python_project, web_project] [sample_user, picky_user]"

text \<open>The same world with the project service unreachable.\<close>

definition offline_env :: env where
  "offline_env = (sample_env [] [])\<lparr>get_active_projects := Inl HttpError\<rparr>"

definition empty_sys :: sys where
  "empty_sys = \<lparr>store = [], published = [], metrics = []\<rparr>"

section \<open>Properties of double-precision rounding\<close>

lemma bit_length_bounds:
  "0 < n \<Longrightarrow> 0 < bit_length n \<and> 2 ^ nat (bit_length n - 1) \<le> n \<and> n < 2 ^ nat (bit_length n)"
proof (induction n rule: bit_length.induct)
  case (1 n)
  have b: "bit_length n = 1 + bit_length (n div 2)"
    using 1(2) by (simp add: bit_length.simps[of n])
  show ?case
  proof (cases "n div 2 \<le> 0")
    case True
    then have "n = 1" using 1(2) by linarith
    moreover have "bit_length (1 div 2) = 0" by (simp add: bit_length.simps[of 0])
    ultimately show ?thesis using b by simp
  next
    case False
    then have ih: "0 < bit_length (n div 2)"
      "2 ^ nat (bit_length (n div 2) - 1) \<le> n div 2"
      "n div 2 < 2 ^ nat (bit_length (n div 2))"
      using 1 by simp_all
    have e1: "nat (bit_length n - 1) = Suc (nat (bit_length (n div 2) - 1))"
      using b ih(1) by simp
    have e2: "nat (bit_length n) = Suc (nat (bit_length (n div 2)))"
      using b ih(1) by simp
    have lo: "(2::int) ^ nat (bit_length n - 1) \<le> n"
    proof -
      have "(2::int) ^ nat (bit_length n - 1) = 2 * 2 ^ nat (bit_length (n div 2) - 1)"
        by (simp add: e1)
      also have "\<dots> \<le> 2 * (n div 2)" using ih(2) by simp
      also have "\<dots> \<le> n" by simp
      finally show ?thesis .
    qed
    have hi: "n < (2::int) ^ nat (bit_length n)"
    proof -
      have "n < 2 * (n div 2 + 1)" by simp
      also have "\<dots> \<le> 2 * 2 ^ nat (bit_length (n div 2))" using ih(3) by simp
      finally show ?thesis by (simp add: e2)
    qed
    show ?thesis using b ih(1) lo hi by simp
  qed
qed

lemma bit_length_powi:
  assumes "0 < n"
  shows "2 powi (bit_length n - 1) \<le> (of_int n :: rat)"
    and "(of_int n :: rat) < 2 powi (bit_length n)"
proof -
  note B = bit_length_bounds[OF assms]
  have "(of_int ((2::int) ^ nat (bit_length n - 1)) :: rat) \<le> of_int n"
    using B by (simp only: of_int_le_iff)
  then show "2 powi (bit_length n - 1) \<le> (of_int n :: rat)"
    using B by (simp add: power_int_def)
  have "(of_int n :: rat) < of_int ((2::int) ^ nat (bit_length n))"
    using B by (simp only: of_int_less_iff)
  then show "(of_int n :: rat) < 2 powi (bit_length n)"
    using B by (simp add: power_int_def)
qed

lemma ilog2_bounds:
  assumes "0 < x"
  shows "2 powi (ilog2 x) \<le> x" and "x < 2 powi (ilog2 x + 1)"
proof -
  obtain p q where pq: "quotient_of x = (p, q)"
    by (cases "quotient_of x")
  have q: "0 < q" using pq by (rule quotient_of_denom_pos)
  have x: "x = of_int p / of_int q" using pq by (rule quotient_of_div)
  have p: "0 < p" using assms q x by (simp add: zero_less_divide_iff)
  define k where "k = bit_length p - bit_length q"
  have il: "ilog2 x = (if 2 powi k \<le> x then k else k - 1)"
    by (simp add: ilog2_def pq k_def Let_def)
  have qpos: "(0::rat) < of_int q" using q by simp
  have lo: "2 powi (k - 1) \<le> x"
  proof -
    have "(2::rat) powi (k - 1) = 2 powi (bit_length p - 1) / 2 powi (bit_length q)"
      by (simp add: k_def power_int_diff)
    also have "\<dots> \<le> of_int p / 2 powi (bit_length q)"
      using bit_length_powi(1)[OF p] by (simp add: divide_right_mono)
    also have "\<dots> \<le> of_int p / of_int q"
      using bit_length_powi(2)[OF q] p qpos by (intro frac_le) simp_all
    finally show ?thesis by (simp add: x)
  qed
  have hi: "x < 2 powi (k + 1)"
  proof -
    have "x = of_int p / of_int q" by (rule x)
    also have "\<dots> < 2 powi (bit_length p) / of_int q"
      using bit_length_powi(2)[OF p] qpos by (simp add: divide_strict_right_mono)
    also have "\<dots> \<le> 2 powi (bit_length p) / 2 powi (bit_length q - 1)"
      using bit_length_powi(1)[OF q] by (intro frac_le) simp_all
    also have "\<dots> = 2 powi (k + 1)"
      by (simp add: k_def power_int_diff power_int_add)
    finally show ?thesis .
  qed
  show "2 powi (ilog2 x) \<le> x" using lo by (simp add: il)
  show "x < 2 powi (ilog2 x + 1)" using hi by (auto simp: il)
qed

lemma round_half_even_cases:
  "round_half_even t = \<lfloor>t\<rfloor> \<and> t - of_int \<lfloor>t\<rfloor> \<le> 1 / 2
   \<or> round_half_even t = \<lfloor>t\<rfloor> + 1 \<and> 1 / 2 \<le> t - of_int \<lfloor>t\<rfloor>"
  by (simp add: round_half_even_def Let_def)

lemma round_half_even_near: "\<bar>of_int (round_half_even t) - t\<bar> \<le> 1 / 2"
proof -
  have fl: "of_int \<lfloor>t\<rfloor> \<le> t" "t < of_int \<lfloor>t\<rfloor> + 1"
    by linarith+
  from round_half_even_cases[of t] show ?thesis
  proof (elim disjE conjE)
    assume "round_half_even t = \<lfloor>t\<rfloor>" "t - of_int \<lfloor>t\<rfloor> \<le> 1 / 2"
    then show ?thesis using fl by simp
  next
    assume "round_half_even t = \<lfloor>t\<rfloor> + 1" "1 / 2 \<le> t - of_int \<lfloor>t\<rfloor>"
    then show ?thesis using fl by simp
  qed
qed

lemma round_half_even_nonneg:
  assumes "0 \<le> t"
  shows "0 \<le> round_half_even t"
proof -
  have "0 \<le> \<lfloor>t\<rfloor>" using assms by simp
  then show ?thesis using round_half_even_cases[of t] by auto
qed

lemma to_double_small:
  assumes "0 \<le> x" and "x \<le> 1024"
  shows "\<exists>r. to_double x = Num r \<and> 0 \<le> r \<and> \<bar>r - x\<bar> \<le> 1 / 2 ^ 43"
proof (cases "x = 0")
  case True
  then show ?thesis by (simp add: to_double_def)
next
  case False
  then have pos: "0 < x" using assms(1) by simp
  define e where "e = ilog2 \<bar>x\<bar>"
  define q :: rat where "q = 2 powi (max e (- 1022) - 52)"
  define n where "n = round_half_even (x / q)"
  have "2 powi e \<le> x" using ilog2_bounds(1)[OF pos] pos by (simp add: e_def)
  then have "(2::rat) powi e \<le> 2 powi 10" using assms(2) by simp
  then have e10: "e \<le> 10" by (rule power_int_le_imp_le_exp[rotated]) simp_all
  have qpos: "0 < q" by (simp add: q_def)
  have "q \<le> 2 powi (- 42)"
    unfolding q_def using e10 by (intro power_int_increasing) auto
  then have qle: "q \<le> 1 / 2 ^ 42" by (simp add: power_int_def divide_simps)
  have near: "\<bar>of_int n - x / q\<bar> \<le> 1 / 2" unfolding n_def by (rule round_half_even_near)
  have "of_int n * q - x = (of_int n - x / q) * q"
    using qpos by (simp add: left_diff_distrib)
  then have "\<bar>of_int n * q - x\<bar> = \<bar>of_int n - x / q\<bar> * q"
    using qpos by (simp add: abs_mult)
  also have "\<dots> \<le> 1 / 2 * q" using near qpos by (simp add: mult_right_mono)
  also have "\<dots> \<le> 1 / 2 ^ 43" using qle by simp
  finally have err: "\<bar>of_int n * q - x\<bar> \<le> 1 / 2 ^ 43" .
  have nn: "0 \<le> n" unfolding n_def using pos qpos by (intro round_half_even_nonneg) simp
  have val: "to_double x = Num (of_int n * q)"
    using False e10 by (simp add: to_double_def Let_def e_def[symmetric] q_def[symmetric] n_def[symmetric])
  show ?thesis using val err nn qpos by simp
qed

lemma to_double_near:
  assumes "0 \<le> x" and "x \<le> 1024"
  shows "\<exists>r. to_double x = Num r \<and> 0 \<le> r \<and> \<bar>r - x\<bar> \<le> 1 / 8796093022208"
  using to_double_small[OF assms] by simp

lemma js_mul_small:
  assumes "0 \<le> a" "0 \<le> b" "a * b \<le> 1024"
  shows "\<exists>r. js_mul (Num a) (Num b) = Num r \<and> 0 \<le> r \<and> \<bar>r - a * b\<bar> \<le> 1 / 8796093022208"
  using to_double_near[of "a * b"] assms by simp

lemma js_add_small:
  assumes "0 \<le> a" "0 \<le> b" "a + b \<le> 1024"
  shows "\<exists>r. js_add (Num a) (Num b) = Num r \<and> 0 \<le> r \<and> \<bar>r - (a + b)\<bar> \<le> 1 / 8796093022208"
  using to_double_near[of "a + b"] assms by simp

lemma weight_values:
  "dbl (4 / 10) = 3602879701896397 / 9007199254740992"
  "dbl (2 / 10) = 3602879701896397 / 18014398509481984"
  "dbl (15 / 100) = 5404319552844595 / 36028797018963968"
  "dbl (1 / 10) = 3602879701896397 / 36028797018963968"
  by code_simp+

lemma or_zero_Num: "to_number (js_or (Some (Number (Num r))) (Number (Num 0))) = Num r"
  by simp

lemma or_zero_NaN: "to_number (js_or (Some (Number NaN)) (Number (Num 0))) = Num 0"
  by simp

lemma weight_of_factor:
  "to_number (js_or (obj_get weights ''skillMatch'') (Number (Num 0))) = Num (dbl (4 / 10))"
  "to_number (js_or (obj_get weights ''experienceMatch'') (Number (Num 0))) = Num (dbl (2 / 10))"
  "to_number (js_or (obj_get weights ''availabilityMatch'') (Number (Num 0))) = Num (dbl (15 / 100))"
  "to_number (js_or (obj_get weights ''locationMatch'') (Number (Num 0))) = Num (dbl (1 / 10))"
  "to_number (js_or (obj_get weights ''interestMatch'') (Number (Num 0))) = Num (dbl (15 / 100))"
  by (simp_all add: obj_get_def weights_def weight_values)

text \<open>One turn of the accumulation, for a score between 0 and 100 and a weight between 0 and 1.\<close>

lemma accumulate_step:
  assumes t: "0 \<le> t" "t \<le> 900" and v: "0 \<le> v" "v \<le> 100" and w: "0 \<le> w" "w \<le> 1"
  shows "\<exists>t'. js_add (Num t) (js_mul (Num v) (Num w)) = Num t' \<and> 0 \<le> t'
           \<and> \<bar>t' - (t + v * w)\<bar> \<le> 1 / 4398046511104"
proof -
  have vw: "v * w \<le> 100"
    using v w by (metis mult_mono mult.right_neutral order_trans)
  then obtain r where r: "js_mul (Num v) (Num w) = Num r" "0 \<le> r" "\<bar>r - v * w\<bar> \<le> 1 / 8796093022208"
    using js_mul_small[of v w] v w by auto
  have "t + r \<le> 1024" using t r(3) vw by linarith
  then obtain t' where t': "js_add (Num t) (Num r) = Num t'" "0 \<le> t'"
      "\<bar>t' - (t + r)\<bar> \<le> 1 / 8796093022208"
    using js_add_small[of t r] t r by auto
  have "\<bar>t' - (t + v * w)\<bar> \<le> 1 / 4398046511104"
    using r(3) t'(3) by linarith
  then show ?thesis using r(1) t'(1,2) by simp
qed

lemma floor_bounds_rat:
  fixes y :: rat
  shows "of_int \<lfloor>y\<rfloor> \<le> y" and "y < of_int \<lfloor>y\<rfloor> + 1"
  by linarith+

lemma overall_in_range:
  assumes s: "0 \<le> s \<and> s \<le> 100" and x: "0 \<le> x \<and> x \<le> 100" and a: "0 \<le> a \<and> a \<le> 100"
    and l: "0 \<le> l \<and> l \<le> 100" and i: "0 \<le> i \<and> i \<le> 100"
  shows "\<exists>n. calculateOverallMatch
                \<lparr>skillMatch = Number (Num s), experienceMatch = Number (Num x),
                 availabilityMatch = Number (Num a), locationMatch = Number (Num l),
                 interestMatch = Number (Num i)\<rparr> = Num (of_int n)
             \<and> 0 \<le> n \<and> n \<le> 100
             \<and> \<bar>of_int n - weighted_sum s x a l i\<bar> \<le> 1 / 2 + 1 / 100000000000"
proof -
  let ?c1 = "3602879701896397 / 9007199254740992 :: rat"
  let ?c2 = "3602879701896397 / 18014398509481984 :: rat"
  let ?c3 = "5404319552844595 / 36028797018963968 :: rat"
  let ?c4 = "3602879701896397 / 36028797018963968 :: rat"
  obtain t1 where t1: "js_add (Num 0) (js_mul (Num s) (Num ?c1)) = Num t1" "0 \<le> t1"
      "\<bar>t1 - (0 + s * ?c1)\<bar> \<le> 1 / 4398046511104"
    using accumulate_step[of 0 s ?c1] s by auto
  have b1: "t1 \<le> 900" using t1(3) s by linarith
  obtain t2 where t2: "js_add (Num t1) (js_mul (Num x) (Num ?c2)) = Num t2" "0 \<le> t2"
      "\<bar>t2 - (t1 + x * ?c2)\<bar> \<le> 1 / 4398046511104"
    using accumulate_step[of t1 x ?c2] t1(2) b1 x by auto
  have b2: "t2 \<le> 900" using t1(3) t2(3) s x by linarith
  obtain t3 where t3: "js_add (Num t2) (js_mul (Num a) (Num ?c3)) = Num t3" "0 \<le> t3"
      "\<bar>t3 - (t2 + a * ?c3)\<bar> \<le> 1 / 4398046511104"
    using accumulate_step[of t2 a ?c3] t2(2) b2 a by auto
  have b3: "t3 \<le> 900" using t1(3) t2(3) t3(3) s x a by linarith
  obtain t4 where t4: "js_add (Num t3) (js_mul (Num l) (Num ?c4)) = Num t4" "0 \<le> t4"
      "\<bar>t4 - (t3 + l * ?c4)\<bar> \<le> 1 / 4398046511104"
    using accumulate_step[of t3 l ?c4] t3(2) b3 l by auto
  have b4: "t4 \<le> 900" using t1(3) t2(3) t3(3) t4(3) s x a l by linarith
  obtain t5 where t5: "js_add (Num t4) (js_mul (Num i) (Num ?c3)) = Num t5" "0 \<le> t5"
      "\<bar>t5 - (t4 + i * ?c3)\<bar> \<le> 1 / 4398046511104"
    using accumulate_step[of t4 i ?c3] t4(2) b4 i by auto
  have val: "calculateOverallMatch
                \<lparr>skillMatch = Number (Num s), experienceMatch = Number (Num x),
                 availabilityMatch = Number (Num a), locationMatch = Number (Num l),
                 interestMatch = Number (Num i)\<rparr> = Num (of_int (round_half_up t5))"
    unfolding calculateOverallMatch_def overall_of_entries_def entries_def add_entry_def
    by (simp only: foldl.simps fst_conv snd_conv factors.simps or_zero_Num weight_of_factor
        weight_values t1(1) t2(1) t3(1) t4(1) t5(1) js_round.simps)
  define n where "n = round_half_up t5"
  have fl: "of_int n \<le> t5 + 1 / 2" "t5 + 1 / 2 < of_int n + 1"
    unfolding n_def round_half_up_def by (rule floor_bounds_rat)+
  have lo: "0 \<le> n"
    unfolding n_def round_half_up_def using t5(2) by simp
  have "t5 + 1 / 2 < 101"
    using t1(3) t2(3) t3(3) t4(3) t5(3) s x a l i by linarith
  then have hi: "n \<le> 100"
    unfolding n_def round_half_up_def by (simp add: floor_less_iff)
  have near: "\<bar>of_int n - weighted_sum s x a l i\<bar> \<le> 1 / 2 + 1 / 100000000000"
    unfolding weighted_sum_def
    using fl t1(3) t2(3) t3(3) t4(3) t5(3) s x a l i by linarith
  show ?thesis
    using val lo hi near unfolding n_def by blast
qed

lemma round_half_even_unique:
  assumes "\<bar>of_int n - t\<bar> < 1 / 2"
  shows "round_half_even t = n"
proof -
  have "\<bar>of_int (round_half_even t) - t\<bar> \<le> 1 / 2" by (rule round_half_even_near)
  then have "\<bar>(of_int (round_half_even t) :: rat) - of_int n\<bar> < 1" using assms by linarith
  then have "\<bar>of_int (round_half_even t - n) :: rat\<bar> < of_int 1" by simp
  then have "\<bar>round_half_even t - n\<bar> < 1"
    by (simp only: of_int_abs[symmetric] of_int_less_iff)
  then show ?thesis by simp
qed

lemma ilog2_unique:
  assumes "0 < x" and "2 powi e \<le> x" and "x < 2 powi (e + 1)"
  shows "ilog2 x = e"
proof -
  note B = ilog2_bounds[OF assms(1)]
  have "(2::rat) powi e < 2 powi (ilog2 x + 1)" using assms(2) B(2) by simp
  then have "e < ilog2 x + 1"
    by (metis power_int_increasing not_less one_le_numeral)
  moreover have "(2::rat) powi (ilog2 x) < 2 powi (e + 1)" using assms(3) B(1) by simp
  then have "ilog2 x < e + 1"
    by (metis power_int_increasing not_less one_le_numeral)
  ultimately show ?thesis by simp
qed

text \<open>
  A rounding step is certified by the exponent \<open>e\<close> of the exact value, the quantum
  \<open>q = 2^(e-52)\<close> and the integer \<open>n\<close> nearest to the value divided by the quantum.
\<close>

lemma to_double_cert:
  assumes "0 < x" and "2 powi e \<le> x" and "x < 2 powi (e + 1)"
    and "- 1022 \<le> e" and "e < 1023" and "q = 2 powi (e - 52)"
    and "\<bar>of_int n - x / q\<bar> < 1 / 2" and "r = of_int n * q"
  shows "to_double x = Num r"
proof -
  define e' where "e' = ilog2 x"
  define q' :: rat where "q' = 2 powi (max e' (- 1022) - 52)"
  define n' where "n' = round_half_even (x / q')"
  have e: "e' = e" using assms(1-3) by (simp add: e'_def ilog2_unique)
  have q: "q' = q" using assms(4) by (simp add: q'_def e assms(6))
  have n: "n' = n" unfolding n'_def q using assms(7) by (rule round_half_even_unique)
  have small: "e' < 1023" using e assms(5) by simp
  have "to_double x = Num (of_int n' * q')"
    using assms(1) small
    by (simp add: to_double_def Let_def e'_def[symmetric] q'_def[symmetric] n'_def[symmetric])
  then show ?thesis by (simp add: n q assms(8))
qed

lemma round_half_even_of_int [simp]: "round_half_even (of_int m) = m"
  by (simp add: round_half_even_def)

lemma to_double_of_int:
  assumes "\<bar>n\<bar> \<le> 2 ^ 53"
  shows "to_double (of_int n) = Num (of_int n)"
proof (cases "n = 0")
  case True
  then show ?thesis by (simp add: to_double_def)
next
  case False
  define x :: rat where "x = of_int n"
  define e where "e = ilog2 \<bar>x\<bar>"
  have xpos: "0 < \<bar>x\<bar>" using False by (simp add: x_def)
  have x1: "1 \<le> \<bar>x\<bar>"
  proof -
    have "1 \<le> \<bar>n\<bar>" using False by simp
    then have "(of_int 1 :: rat) \<le> of_int \<bar>n\<bar>" by (simp only: of_int_le_iff)
    then show ?thesis by (simp add: x_def)
  qed
  have x53: "\<bar>x\<bar> \<le> 2 ^ 53"
  proof -
    have "(of_int \<bar>n\<bar> :: rat) \<le> of_int (2 ^ 53)" using assms by (simp only: of_int_le_iff)
    then show ?thesis by (simp add: x_def)
  qed
  have lo: "2 powi e \<le> \<bar>x\<bar>" and hi: "\<bar>x\<bar> < 2 powi (e + 1)"
    using ilog2_bounds[OF xpos] by (simp_all add: e_def)
  have e0: "0 \<le> e"
  proof (rule ccontr)
    assume "\<not> 0 \<le> e"
    then have "e + 1 \<le> 0" by simp
    then have "(2::rat) powi (e + 1) \<le> 2 powi 0" by (intro power_int_increasing) simp_all
    then show False using hi x1 by simp
  qed
  have "(2::rat) powi e \<le> 2 powi 53" using lo x53 by simp
  then have e53: "e \<le> 53" by (rule power_int_le_imp_le_exp[rotated]) simp_all
  define q :: rat where "q = 2 powi (e - 52)"
  have qpos: "0 < q" by (simp add: q_def)
  have "\<exists>m. x / q = of_int m"
  proof (cases "e \<le> 52")
    case True
    have "x / q = x * 2 powi (52 - e)"
      by (simp add: q_def power_int_diff field_simps)
    also have "\<dots> = of_int n * of_int (2 ^ nat (52 - e))"
      using True by (simp add: x_def power_int_def)
    also have "\<dots> = of_int (n * 2 ^ nat (52 - e))" by simp
    finally show ?thesis by blast
  next
    case False
    then have e: "e = 53" using e53 by simp
    then have "(2::rat) ^ 53 \<le> \<bar>x\<bar>" using lo by simp
    then have ax: "\<bar>x\<bar> = 2 ^ 53" using x53 by simp
    have q2: "q = 2" by (simp add: q_def e)
    have "x = of_int (2 ^ 53) \<or> x = of_int (- (2 ^ 53))"
      using ax by (cases "0 \<le> x") simp_all
    then have "x / q = of_int (2 ^ 52) \<or> x / q = of_int (- (2 ^ 52))"
      by (auto simp: q2)
    then show ?thesis by blast
  qed
  then obtain m where m: "x / q = of_int m" by blast
  then have xm: "of_int m * q = x" using qpos by (simp add: field_simps)
  have "to_double x = Num (of_int (round_half_even (x / q)) * q)"
    using False e0 e53 xpos
    by (simp add: to_double_def Let_def e_def[symmetric] q_def[symmetric] max_def)
  then show ?thesis by (simp add: m xm x_def[symmetric])
qed

lemma to_double_numeral_int [simp]:
  "numeral k \<le> (2::int) ^ 53 \<Longrightarrow> to_double (numeral k) = Num (numeral k)"
  "numeral k \<le> (2::int) ^ 53 \<Longrightarrow> to_double (- numeral k) = Num (- numeral k)"
  "to_double 0 = Num 0" "to_double 1 = Num 1" "to_double (- 1) = Num (- 1)"
  using to_double_of_int[of "numeral k"] to_double_of_int[of "- numeral k"]
    to_double_of_int[of 0] to_double_of_int[of 1] to_double_of_int[of "- 1"]
  by simp_all

lemma levels_nonzero:
  "map_of experienceMap k = Some v \<Longrightarrow> v \<noteq> 0"
  "map_of difficultyMap k = Some v \<Longrightarrow> v \<noteq> 0"
  by (auto simp: experienceMap_def difficultyMap_def split: if_splits)

lemma level_lookup:
  assumes "\<not> List.member object_prototype_keys (key_string k)"
    and "\<And>k v. map_of table k = Some v \<Longrightarrow> v \<noteq> 0"
  shows "to_number (js_or (obj_get table (key_string k)) (Number (Num 1))) = Num (level_of table k)"
  using assms by (auto simp: obj_get_def level_of_def split: option.splits)

lemma level_of_values:
  "level_of experienceMap ue \<in> {1, 2, 3, 4}" "level_of difficultyMap pd \<in> {1, 2, 3}"
  by (auto simp: level_of_def experienceMap_def difficultyMap_def split: option.splits if_splits)

lemma experience_curve:
  assumes "a \<in> {1, 2, 3, 4 :: rat}" and "b \<in> {1, 2, 3 :: rat}"
  shows "js_max (Num 0) (js_sub (Num 100) (js_mul (js_abs (js_sub (Num a) (Num b))) (Num 25)))
         = Num (max 0 (100 - 25 * \<bar>a - b\<bar>))"
  using assms by (auto simp: js_sub_def)

text \<open>
  Away from the property names that every object inherits, the experience factor is the
  formula of claim C9: 100 minus 25 for each level of distance, not below 0, a missing
  or unknown tier counting as level 1.
\<close>

lemma calculateExperienceMatch_formula:
  assumes "\<not> List.member object_prototype_keys (key_string ue)"
    and "\<not> List.member object_prototype_keys (key_string pd)"
  shows "calculateExperienceMatch ue pd =
           Num (max 0 (100 - 25 * \<bar>level_of experienceMap ue - level_of difficultyMap pd\<bar>))"
  unfolding calculateExperienceMatch_def Let_def
  by (simp only: level_lookup[OF assms(1) levels_nonzero(1)]
        level_lookup[OF assms(2) levels_nonzero(2)] to_number.simps
        experience_curve[OF level_of_values])

section \<open>Evaluation of the sample data in double precision\<close>

lemma round_step_1: "js_mul (Num 0) (Num (3602879701896397 / 9007199254740992)) = Num 0"
  by simp

lemma round_step_2: "js_add (Num 0) (Num 0) = Num 0"
  by simp

lemma round_step_3: "js_mul (Num 50) (Num (3602879701896397 / 18014398509481984)) = Num 10"
  unfolding js_mul.simps
  by (rule to_double_cert[where e = "3" and n = 5629499534213120 and q = "1 / 562949953421312"])
     (simp_all add: power_int_def power_one_over)

lemma round_step_4: "js_add (Num 0) (Num 10) = Num 10"
  unfolding js_add.simps
  by (rule to_double_cert[where e = "3" and n = 5629499534213120 and q = "1 / 562949953421312"])
     (simp_all add: power_int_def power_one_over)

lemma round_step_5: "js_mul (Num 50) (Num (5404319552844595 / 36028797018963968)) = Num (15 / 2)"
  unfolding js_mul.simps
  by (rule to_double_cert[where e = "2" and n = 8444249301319680 and q = "1 / 1125899906842624"])
     (simp_all add: power_int_def power_one_over)

lemma round_step_6: "js_add (Num 10) (Num (15 / 2)) = Num (35 / 2)"
  unfolding js_add.simps
  by (rule to_double_cert[where e = "4" and n = 4925812092436480 and q = "1 / 281474976710656"])
     (simp_all add: power_int_def power_one_over)

lemma round_step_7: "js_mul (Num 50) (Num (3602879701896397 / 36028797018963968)) = Num 5"
  unfolding js_mul.simps
  by (rule to_double_cert[where e = "2" and n = 5629499534213120 and q = "1 / 1125899906842624"])
     (simp_all add: power_int_def power_one_over)

lemma round_step_8: "js_add (Num (35 / 2)) (Num 5) = Num (45 / 2)"
  unfolding js_add.simps
  by (rule to_double_cert[where e = "4" and n = 6333186975989760 and q = "1 / 281474976710656"])
     (simp_all add: power_int_def power_one_over)

lemma round_step_9: "js_add (Num (45 / 2)) (Num (15 / 2)) = Num 30"
  unfolding js_add.simps
  by (rule to_double_cert[where e = "4" and n = 8444249301319680 and q = "1 / 281474976710656"])
     (simp_all add: power_int_def power_one_over)

lemma round_step_10: "js_mul (Num 40) (Num (5404319552844595 / 36028797018963968)) = Num 6"
  unfolding js_mul.simps
  by (rule to_double_cert[where e = "2" and n = 6755399441055744 and q = "1 / 1125899906842624"])
     (simp_all add: power_int_def power_one_over)

lemma round_step_11: "js_add (Num (45 / 2)) (Num 6) = Num (57 / 2)"
  unfolding js_add.simps
  by (rule to_double_cert[where e = "4" and n = 8022036836253696 and q = "1 / 281474976710656"])
     (simp_all add: power_int_def power_one_over)

lemma round_step_12: "js_mul (Num 70) (Num (3602879701896397 / 9007199254740992)) = Num 28"
  unfolding js_mul.simps
  by (rule to_double_cert[where e = "4" and n = 7881299347898368 and q = "1 / 281474976710656"])
     (simp_all add: power_int_def power_one_over)

lemma round_step_13: "js_add (Num 0) (Num 28) = Num 28"
  unfolding js_add.simps
  by (rule to_double_cert[where e = "4" and n = 7881299347898368 and q = "1 / 281474976710656"])
     (simp_all add: power_int_def power_one_over)

lemma round_step_14: "js_mul (Num 100) (Num (3602879701896397 / 18014398509481984)) = Num 20"
  unfolding js_mul.simps
  by (rule to_double_cert[where e = "4" and n = 5629499534213120 and q = "1 / 281474976710656"])
     (simp_all add: power_int_def power_one_over)

lemma round_step_15: "js_add (Num 28) (Num 20) = Num 48"
  unfolding js_add.simps
  by (rule to_double_cert[where e = "5" and n = 6755399441055744 and q = "1 / 140737488355328"])
     (simp_all add: power_int_def power_one_over)

lemma round_step_16: "js_add (Num 48) (Num (15 / 2)) = Num (111 / 2)"
  unfolding js_add.simps
  by (rule to_double_cert[where e = "5" and n = 7810930603720704 and q = "1 / 140737488355328"])
     (simp_all add: power_int_def power_one_over)

lemma round_step_17: "js_add (Num (111 / 2)) (Num 5) = Num (121 / 2)"
  unfolding js_add.simps
  by (rule to_double_cert[where e = "5" and n = 8514618045497344 and q = "1 / 140737488355328"])
     (simp_all add: power_int_def power_one_over)

lemma round_step_18: "js_add (Num (121 / 2)) (Num (15 / 2)) = Num 68"
  unfolding js_add.simps
  by (rule to_double_cert[where e = "6" and n = 4785074604081152 and q = "1 / 70368744177664"])
     (simp_all add: power_int_def power_one_over)

lemma round_step_19: "js_add (Num 0) (Num 20) = Num 20"
  unfolding js_add.simps
  by (rule to_double_cert[where e = "4" and n = 5629499534213120 and q = "1 / 281474976710656"])
     (simp_all add: power_int_def power_one_over)

lemma round_step_20: "js_add (Num 20) (Num (15 / 2)) = Num (55 / 2)"
  unfolding js_add.simps
  by (rule to_double_cert[where e = "4" and n = 7740561859543040 and q = "1 / 281474976710656"])
     (simp_all add: power_int_def power_one_over)

lemma round_step_21: "js_add (Num (55 / 2)) (Num 5) = Num (65 / 2)"
  unfolding js_add.simps
  by (rule to_double_cert[where e = "5" and n = 4573968371548160 and q = "1 / 140737488355328"])
     (simp_all add: power_int_def power_one_over)

lemma round_step_22: "js_add (Num (65 / 2)) (Num (15 / 2)) = Num 40"
  unfolding js_add.simps
  by (rule to_double_cert[where e = "5" and n = 5629499534213120 and q = "1 / 140737488355328"])
     (simp_all add: power_int_def power_one_over)

lemma round_step_23: "js_mul (Num 0) (Num (5404319552844595 / 36028797018963968)) = Num 0"
  by simp

lemma round_step_24: "js_add (Num (121 / 2)) (Num 0) = Num (121 / 2)"
  unfolding js_add.simps
  by (rule to_double_cert[where e = "5" and n = 8514618045497344 and q = "1 / 140737488355328"])
     (simp_all add: power_int_def power_one_over)

lemma round_step_25: "js_mul (Num 100) (Num (3602879701896397 / 9007199254740992)) = Num 40"
  unfolding js_mul.simps
  by (rule to_double_cert[where e = "5" and n = 5629499534213120 and q = "1 / 140737488355328"])
     (simp_all add: power_int_def power_one_over)

lemma round_step_26: "js_add (Num 0) (Num 40) = Num 40"
  unfolding js_add.simps
  by (rule to_double_cert[where e = "5" and n = 5629499534213120 and q = "1 / 140737488355328"])
     (simp_all add: power_int_def power_one_over)

lemma round_step_27: "js_add (Num 40) (Num 10) = Num 50"
  unfolding js_add.simps
  by (rule to_double_cert[where e = "5" and n = 7036874417766400 and q = "1 / 140737488355328"])
     (simp_all add: power_int_def power_one_over)

lemma round_step_28: "js_mul (Num 75) (Num (5404319552844595 / 36028797018963968)) = Num (45 / 4)"
  unfolding js_mul.simps
  by (rule to_double_cert[where e = "3" and n = 6333186975989760 and q = "1 / 562949953421312"])
     (simp_all add: power_int_def power_one_over)

lemma round_step_29: "js_add (Num 50) (Num (45 / 4)) = Num (245 / 4)"
  unfolding js_add.simps
  by (rule to_double_cert[where e = "5" and n = 8620171161763840 and q = "1 / 140737488355328"])
     (simp_all add: power_int_def power_one_over)

lemma round_step_30: "js_add (Num (245 / 4)) (Num 5) = Num (265 / 4)"
  unfolding js_add.simps
  by (rule to_double_cert[where e = "6" and n = 4661929301770240 and q = "1 / 70368744177664"])
     (simp_all add: power_int_def power_one_over)

lemma round_step_31: "js_add (Num (265 / 4)) (Num 6) = Num (289 / 4)"
  unfolding js_add.simps
  by (rule to_double_cert[where e = "6" and n = 5084141766836224 and q = "1 / 70368744177664"])
     (simp_all add: power_int_def power_one_over)

lemma round_step_32: "js_mul (Num 100) (Num (5404319552844595 / 36028797018963968)) = Num 15"
  unfolding js_mul.simps
  by (rule to_double_cert[where e = "3" and n = 8444249301319680 and q = "1 / 562949953421312"])
     (simp_all add: power_int_def power_one_over)

lemma round_step_33: "js_add (Num 20) (Num 15) = Num 35"
  unfolding js_add.simps
  by (rule to_double_cert[where e = "5" and n = 4925812092436480 and q = "1 / 140737488355328"])
     (simp_all add: power_int_def power_one_over)

lemma round_step_34: "js_mul (Num 25) (Num (3602879701896397 / 36028797018963968)) = Num (5 / 2)"
  unfolding js_mul.simps
  by (rule to_double_cert[where e = "1" and n = 5629499534213120 and q = "1 / 2251799813685248"])
     (simp_all add: power_int_def power_one_over)

lemma round_step_35: "js_add (Num 35) (Num (5 / 2)) = Num (75 / 2)"
  unfolding js_add.simps
  by (rule to_double_cert[where e = "5" and n = 5277655813324800 and q = "1 / 140737488355328"])
     (simp_all add: power_int_def power_one_over)

lemma round_step_36: "js_mul (Num (3752999689475413 / 281474976710656)) (Num (5404319552844595 / 36028797018963968)) = Num (9007199254740991 / 4503599627370496)"
  unfolding js_mul.simps
  by (rule to_double_cert[where e = "0" and n = 9007199254740991 and q = "1 / 4503599627370496"])
     (simp_all add: power_int_def power_one_over)

lemma round_step_37: "js_add (Num (75 / 2)) (Num (9007199254740991 / 4503599627370496)) = Num (79 / 2)"
  unfolding js_add.simps
  by (rule to_double_cert[where e = "5" and n = 5559130790035456 and q = "1 / 140737488355328"])
     (simp_all add: power_int_def power_one_over)

lemma round_step_38: "js_mul (Num 57) (Num (3602879701896397 / 9007199254740992)) = Num (6417629469002957 / 281474976710656)"
  unfolding js_mul.simps
  by (rule to_double_cert[where e = "4" and n = 6417629469002957 and q = "1 / 281474976710656"])
     (simp_all add: power_int_def power_one_over)

lemma round_step_39: "js_add (Num 0) (Num (6417629469002957 / 281474976710656)) = Num (6417629469002957 / 281474976710656)"
  unfolding js_add.simps
  by (rule to_double_cert[where e = "4" and n = 6417629469002957 and q = "1 / 281474976710656"])
     (simp_all add: power_int_def power_one_over)

lemma round_step_40: "js_mul (Num (187 / 4)) (Num (3602879701896397 / 18014398509481984)) = Num (5263582064489267 / 562949953421312)"
  unfolding js_mul.simps
  by (rule to_double_cert[where e = "3" and n = 5263582064489267 and q = "1 / 562949953421312"])
     (simp_all add: power_int_def power_one_over)

lemma round_step_41: "js_add (Num (6417629469002957 / 281474976710656)) (Num (5263582064489267 / 562949953421312)) = Num (4524710250623795 / 140737488355328)"
  unfolding js_add.simps
  by (rule to_double_cert[where e = "5" and n = 4524710250623795 and q = "1 / 140737488355328"])
     (simp_all add: power_int_def power_one_over)

lemma round_step_42: "js_mul (Num (103 / 4)) (Num (5404319552844595 / 36028797018963968)) = Num (4348788390179635 / 1125899906842624)"
  unfolding js_mul.simps
  by (rule to_double_cert[where e = "1" and n = 8697576780359270 and q = "1 / 2251799813685248"])
     (simp_all add: power_int_def power_one_over)

lemma round_step_43: "js_add (Num (4524710250623795 / 140737488355328)) (Num (4348788390179635 / 1125899906842624)) = Num (5068308799396249 / 140737488355328)"
  unfolding js_add.simps
  by (rule to_double_cert[where e = "5" and n = 5068308799396249 and q = "1 / 140737488355328"])
     (simp_all add: power_int_def power_one_over)

lemma round_step_44: "js_mul (Num 60) (Num (3602879701896397 / 36028797018963968)) = Num 6"
  unfolding js_mul.simps
  by (rule to_double_cert[where e = "2" and n = 6755399441055744 and q = "1 / 1125899906842624"])
     (simp_all add: power_int_def power_one_over)

lemma round_step_45: "js_add (Num (5068308799396249 / 140737488355328)) (Num 6) = Num (5912733729528217 / 140737488355328)"
  unfolding js_add.simps
  by (rule to_double_cert[where e = "5" and n = 5912733729528217 and q = "1 / 140737488355328"])
     (simp_all add: power_int_def power_one_over)

lemma round_step_46: "js_mul (Num (93 / 4)) (Num (5404319552844595 / 36028797018963968)) = Num (3926575925113651 / 1125899906842624)"
  unfolding js_mul.simps
  by (rule to_double_cert[where e = "1" and n = 7853151850227302 and q = "1 / 2251799813685248"])
     (simp_all add: power_int_def power_one_over)

lemma round_step_47: "js_add (Num (5912733729528217 / 140737488355328)) (Num (3926575925113651 / 1125899906842624)) = Num (6403555720167423 / 140737488355328)"
  unfolding js_add.simps
  by (rule to_double_cert[where e = "5" and n = 6403555720167423 and q = "1 / 140737488355328"])
     (simp_all add: power_int_def power_one_over)

lemmas round_steps =
  round_step_1 round_step_2 round_step_3 round_step_4 round_step_5 round_step_6
  round_step_7 round_step_8 round_step_9 round_step_10 round_step_11 round_step_12
  round_step_13 round_step_14 round_step_15 round_step_16 round_step_17 round_step_18
  round_step_19 round_step_20 round_step_21 round_step_22 round_step_23 round_step_24
  round_step_25 round_step_26 round_step_27 round_step_28 round_step_29 round_step_30
  round_step_31 round_step_32 round_step_33 round_step_34 round_step_35 round_step_36
  round_step_37 round_step_38 round_step_39 round_step_40 round_step_41 round_step_42
  round_step_43 round_step_44 round_step_45 round_step_46 round_step_47

lemma sample_overall:
  "calculateOverallMatch \<lparr>skillMatch = Number (Num 0), experienceMatch = Number (Num 50),
          availabilityMatch = Number (Num 50), locationMatch = Number (Num 50),
          interestMatch = Number (Num 50)\<rparr> = Num 30"
  "calculateOverallMatch \<lparr>skillMatch = Number (Num 0), experienceMatch = Number (Num 50),
          availabilityMatch = Number (Num 50), locationMatch = Number (Num 50),
          interestMatch = Number (Num 40)\<rparr> = Num 29"
  "calculateOverallMatch \<lparr>skillMatch = Number NaN, experienceMatch = Number (Num 50),
          availabilityMatch = Number (Num 50), locationMatch = Number (Num 50),
          interestMatch = Number (Num 50)\<rparr> = Num 30"
  "calculateOverallMatch \<lparr>skillMatch = Number (Num 70), experienceMatch = Number (Num 100),
          availabilityMatch = Number (Num 50), locationMatch = Number (Num 50),
          interestMatch = Number (Num 50)\<rparr> = Num 68"
  "calculateOverallMatch \<lparr>skillMatch = Number NaN, experienceMatch = Number (Num 100),
          availabilityMatch = Number (Num 50), locationMatch = Number (Num 50),
          interestMatch = Number (Num 50)\<rparr> = Num 40"
  "calculateOverallMatch \<lparr>skillMatch = Number (Num 70), experienceMatch = Number (Num 100),
          availabilityMatch = Number (Num 50), locationMatch = Number (Num 50),
          interestMatch = Number NaN\<rparr> = Num 61"
  "calculateOverallMatch \<lparr>skillMatch = Number (Num 100), experienceMatch = Number (Num 50),
          availabilityMatch = Number (Num 75), locationMatch = Number (Num 50),
          interestMatch = Number (Num 40)\<rparr> = Num 72"
  "calculateOverallMatch \<lparr>skillMatch = Number (Num 0), experienceMatch = Number (Num 100),
          availabilityMatch = Number (Num 100), locationMatch = Number (Num 25),
          interestMatch = Number (Num (3752999689475413 / 281474976710656))\<rparr> = Num 40"
  "calculateOverallMatch \<lparr>skillMatch = Number (Num 57), experienceMatch = Number (Num (187 / 4)),
          availabilityMatch = Number (Num (103 / 4)), locationMatch = Number (Num 60),
          interestMatch = Number (Num (93 / 4))\<rparr> = Num 45"
  unfolding calculateOverallMatch_def overall_of_entries_def entries_def add_entry_def
  by (simp_all only: foldl.simps fst_conv snd_conv factors.simps or_zero_Num or_zero_NaN
        weight_of_factor weight_values round_steps js_round.simps)
     (simp_all add: round_half_up_def floor_unique)

lemma lower_samples:
  "toLowerCase ''JavaScript'' = ''javascript''" "toLowerCase ''React'' = ''react''"
  "toLowerCase ''javascript'' = ''javascript''" "toLowerCase ''react'' = ''react''"
  "toLowerCase ''typescript'' = ''typescript''" "toLowerCase ''python'' = ''python''"
  "toLowerCase ''Machine Learning'' = ''machine learning''"
  "toLowerCase ''learning'' = ''learning''"
  by code_simp+

lemmas scoring_defs =
  compute_factors_def calculateSkillMatch_def calculateExperienceMatch_def
  calculateAvailabilityMatch_def calculateLocationMatch_def calculateInterestMatch_def
  len_def Let_def key_string_def obj_get_def experienceMap_def difficultyMap_def
  availabilityMap_def object_prototype_keys_def falsy_string_def js_sub_def lower_samples

lemma sample_factors:
  "compute_factors sample_user python_project =
     Inr \<lparr>skillMatch = Number (Num 0), experienceMatch = Number (Num 50),
          availabilityMatch = Number (Num 50), locationMatch = Number (Num 50),
          interestMatch = Number (Num 50)\<rparr>"
  "compute_factors picky_user python_project =
     Inr \<lparr>skillMatch = Number (Num 0), experienceMatch = Number (Num 50),
          availabilityMatch = Number (Num 50), locationMatch = Number (Num 50),
          interestMatch = Number (Num 40)\<rparr>"
  "compute_factors sample_user unskilled_project =
     Inr \<lparr>skillMatch = Number NaN, experienceMatch = Number (Num 50),
          availabilityMatch = Number (Num 50), locationMatch = Number (Num 50),
          interestMatch = Number (Num 50)\<rparr>"
  "compute_factors sample_user web_project =
     Inr \<lparr>skillMatch = Number (Num 70), experienceMatch = Number (Num 100),
          availabilityMatch = Number (Num 50), locationMatch = Number (Num 50),
          interestMatch = Number (Num 50)\<rparr>"
  "compute_factors sample_user open_project =
     Inr \<lparr>skillMatch = Number NaN, experienceMatch = Number (Num 100),
          availabilityMatch = Number (Num 50), locationMatch = Number (Num 50),
          interestMatch = Number (Num 50)\<rparr>"
  "compute_factors picky_user untagged_project =
     Inr \<lparr>skillMatch = Number (Num 70), experienceMatch = Number (Num 100),
          availabilityMatch = Number (Num 50), locationMatch = Number (Num 50),
          interestMatch = Number NaN\<rparr>"
  "compute_factors bare_user web_project = Inl TypeError"
  by (simp_all add: scoring_defs sample_user_def picky_user_def bare_user_def
      python_project_def unskilled_project_def web_project_def open_project_def
      untagged_project_def)

lemma sample_fields:
  "user_id sample_user = 10" "user_id picky_user = 11" "user_id bare_user = 12"
  "project_id python_project = 20" "collaborators python_project = Some []"
  "project_id open_project = 21" "collaborators open_project = Some []"
  "project_id broken_project = 22"
  "collaborators broken_project = Some [\<lparr>collab_userId = None\<rparr>]"
  "project_id web_project = 23"
  "collaborators web_project = Some [\<lparr>collab_userId = Some 99\<rparr>]"
  "requiredSkills web_project = Some [''javascript'', ''react'']"
  "project_id untagged_project = 24" "collaborators untagged_project = Some []"
  "project_id unskilled_project = 25" "collaborators unskilled_project = Some []"
  by (simp_all add: sample_user_def picky_user_def bare_user_def python_project_def
      open_project_def broken_project_def web_project_def untagged_project_def
      unskilled_project_def)

lemmas pipeline_defs =
  runs_def generateMatchesForUser_def try_generateMatchesForUser_def catch_error_def
  generateMatchesForProject_def try_generateMatchesForProject_def
  user_step_def project_step_def create_match_def findOne_def new_match_def fresh_id_def
  matchSchema_valid_def generateMatchReasons_def sample_env_def sample_world_def
  offline_env_def empty_sys_def Let_def

section \<open>Idempotence of match creation\<close>


lemma new_match_pair [simp]:
  "userId (new_match st t u p sc f rs) = u" "projectId (new_match st t u p sc f rs) = p"
  by (simp_all add: new_match_def)












lemma catch_error_store [simp]: "store (catch_error label r) = store (fst r)"
  by (cases r) (simp add: catch_error_def split: option.splits)

lemma generateMatchesForUser_store:
  "store (generateMatchesForUser e uid s) = store (fst (try_generateMatchesForUser e uid s))"
  by (simp add: generateMatchesForUser_def)









lemma count_pair_append: "count_pair (xs @ ys) u p = count_pair xs u p + count_pair ys u p"
  by (simp add: count_pair_def)


lemma findOne_None_count: "findOne st u p = None \<longleftrightarrow> count_pair st u p = 0"
  by (auto simp: findOne_def find_None_iff count_pair_def filter_empty_conv)



lemma count_pair_map:
  "count_pair st u p = length (filter (\<lambda>k. k = (u, p)) (map (\<lambda>m. (userId m, projectId m)) st))"
  by (simp add: count_pair_def filter_map comp_def)


section \<open>Failures inside a batch\<close>

lemma create_match_error_state:
  "create_match e label u p f s = (s', Some err) \<Longrightarrow> s' = s"
  by (auto simp: create_match_def Let_def split: if_splits)

lemma user_step_error_state:
  "user_step e uid u p s = (s', Some err) \<Longrightarrow> s' = s"
  by (auto simp: user_step_def split: option.splits sum.splits bool.splits
      dest: create_match_error_state)

lemma project_step_error_state:
  "project_step e p u s = (s', Some err) \<Longrightarrow> s' = s"
  by (auto simp: project_step_def split: option.splits sum.splits
      dest: create_match_error_state)

lemma user_loop_append:
  "user_loop e uid u (ps1 @ ps2) s =
     (case user_loop e uid u ps1 s of
        (s', Some err) \<Rightarrow> (s', Some err)
      | (s', None) \<Rightarrow> user_loop e uid u ps2 s')"
  by (induction ps1 arbitrary: s) (auto split: prod.splits option.splits)

lemma project_loop_append:
  "project_loop e p (us1 @ us2) s =
     (case project_loop e p us1 s of
        (s', Some err) \<Rightarrow> (s', Some err)
      | (s', None) \<Rightarrow> project_loop e p us2 s')"
  by (induction us1 arbitrary: s) (auto split: prod.splits option.splits)

text \<open>The same holds for the loop over the users of \<open>generateMatchesForProject\<close>.\<close>

lemma project_batch_stops_at_failure:
  assumes "project_loop e p us1 s = (s1, None)"
    and "snd (project_step e p u s1) = Some err"
  shows "project_loop e p (us1 @ u # us2) s = (s1, Some err)"
proof -
  obtain s2 where st: "project_step e p u s1 = (s2, Some err)"
    using assms(2) by (cases "project_step e p u s1") simp
  then have "s2 = s1" by (rule project_step_error_state)
  then show ?thesis
    using assms(1) st by (simp add: project_loop_append)
qed

text \<open>
  Claim C6, as the code has it.  The loop over the candidates sits inside the single
  \<open>try\<close> block of the generator, so the first candidate whose processing throws ends
  the batch: the state is the one reached after the candidates before it (their
  documents stay), nothing is done for the candidates after it, and the generator
  returns normally after incrementing the error counter.
\<close>

theorem batch_stops_at_failure:
  assumes "get_user e uid = Inr u" and "get_active_projects e = Inr (ps1 @ p # ps2)"
    and "user_loop e uid u ps1 s = (s1, None)"
    and "snd (user_step e uid u p s1) = Some err"
  shows "user_loop e uid u (ps1 @ p # ps2) s = (s1, Some err)
       \<and> generateMatchesForUser e uid s = s1\<lparr>metrics := metrics s1 @ [(''user'', ''error'')]\<rparr>
       \<and> store (generateMatchesForUser e uid s) = store (fst (user_loop e uid u ps1 s))"
proof -
  obtain s2 where st: "user_step e uid u p s1 = (s2, Some err)"
    using assms(4) by (cases "user_step e uid u p s1") simp
  then have "s2 = s1" by (rule user_step_error_state)
  then have loop: "user_loop e uid u (ps1 @ p # ps2) s = (s1, Some err)"
    using assms(3) st by (simp add: user_loop_append)
  then show ?thesis
    using assms(1-3)
    by (simp add: generateMatchesForUser_def try_generateMatchesForUser_def catch_error_def)
qed

lemma sample_alone:
  "map (\<lambda>m. (userId m, projectId m))
     (store (generateMatchesForUser (sample_env [web_project] []) 10 empty_sys)) = [(10, 23)]"
  "map (\<lambda>m. (userId m, projectId m))
     (store (generateMatchesForProject (sample_env [] [sample_user]) 23 empty_sys)) = [(10, 23)]"
  by (simp_all add: pipeline_defs sample_fields sample_factors sample_overall)

lemma sample_broken:
  "user_step (sample_env [broken_project, web_project] []) 10 sample_user broken_project empty_sys
     = (empty_sys, Some TypeError)"
  "generateMatchesForUser (sample_env [broken_project, web_project] []) 10 empty_sys
     = empty_sys\<lparr>metrics := [(''user'', ''error'')]\<rparr>"
  "project_step (sample_env [] [bare_user, sample_user]) web_project bare_user empty_sys
     = (empty_sys, Some TypeError)"
  "generateMatchesForProject (sample_env [] [bare_user, sample_user]) 23 empty_sys
     = empty_sys\<lparr>metrics := [(''project'', ''error'')]\<rparr>"
  by (simp_all add: pipeline_defs sample_fields sample_factors sample_overall)

text \<open>
  Claim C6 as stated fails.  Alone, the well-fitting project gets its match for user 10;
  listed after a project whose collaborator entry has no \<open>userId\<close> (the check
  throws a TypeError), it gets none.  Likewise for a project trigger: user 10 alone is
  matched, but not when listed after a user document without \<open>profile\<close>.
\<close>

theorem failure_aborts_batch_counterexample:
  "count_pair (store (generateMatchesForUser (sample_env [web_project] []) 10 empty_sys)) 10 23 = 1
   \<and> user_step (sample_env [broken_project, web_project] []) 10 sample_user broken_project
        empty_sys = (empty_sys, Some TypeError)
   \<and> count_pair (store (generateMatchesForUser (sample_env [broken_project, web_project] [])
                          10 empty_sys)) 10 23 = 0
   \<and> count_pair (store (generateMatchesForProject (sample_env [] [sample_user]) 23 empty_sys))
        10 23 = 1
   \<and> project_step (sample_env [] [bare_user, sample_user]) web_project bare_user empty_sys
        = (empty_sys, Some TypeError)
   \<and> count_pair (store (generateMatchesForProject (sample_env [] [bare_user, sample_user])
                          23 empty_sys)) 10 23 = 0"
  by (simp add: count_pair_map sample_alone sample_broken) (simp add: empty_sys_def)

lemma sample_prefix_loop:
  "user_loop (sample_env [python_project, broken_project, web_project] []) 10 sample_user
     [python_project] empty_sys
   = (fst (user_step (sample_env [python_project, broken_project, web_project] []) 10
             sample_user python_project empty_sys), None)"
  "snd (user_step (sample_env [python_project, broken_project, web_project] []) 10 sample_user
          broken_project
          (fst (user_step (sample_env [python_project, broken_project, web_project] []) 10
                  sample_user python_project empty_sys))) = Some TypeError"
  "map (\<lambda>m. (userId m, projectId m))
     (store (fst (user_step (sample_env [python_project, broken_project, web_project] []) 10
                    sample_user python_project empty_sys))) = [(10, 20)]"
  by (simp_all add: pipeline_defs sample_fields sample_factors sample_overall)

theorem batch_stops_at_failure_witness:
  "map (\<lambda>m. (userId m, projectId m))
     (store (generateMatchesForUser
               (sample_env [python_project, broken_project, web_project] []) 10 empty_sys))
   = [(10, 20)]
   \<and> metrics (generateMatchesForUser
               (sample_env [python_project, broken_project, web_project] []) 10 empty_sys)
     = [(''user'', ''success''), (''user'', ''error'')]"
proof -
  let ?e = "sample_env [python_project, broken_project, web_project] []"
  let ?s1 = "fst (user_step ?e 10 sample_user python_project empty_sys)"
  have u: "get_user ?e 10 = Inr sample_user"
    by (simp add: sample_env_def sample_user_def)
  have ps: "get_active_projects ?e = Inr ([python_project] @ broken_project # [web_project])"
    by (simp add: sample_env_def)
  have m: "metrics ?s1 = [(''user'', ''success'')]"
    by (simp_all add: pipeline_defs sample_fields sample_factors sample_overall)
  show ?thesis
    using batch_stops_at_failure[OF u ps sample_prefix_loop(1) sample_prefix_loop(2)]
    by (simp add: sample_prefix_loop(3) m)
qed


section \<open>The overall score\<close>

text \<open>
  Claim C1, as the code has it.  When the five sub-scores are numbers between 0 and 100,
  \<open>calculateOverallMatch\<close> returns an integer between 0 and 100: \<open>Math.round\<close> of
  the weighted sum (weights 0.40, 0.20, 0.15, 0.10, 0.15) as accumulated in
  double-precision arithmetic.  That integer differs from the exact weighted sum by at
  most one half plus \<open>10^-11\<close>, so it is a nearest integer of the exact sum unless the
  exact sum is that close to a half-integer.
\<close>

theorem calculateOverallMatch_double_sum:
  assumes "0 \<le> s \<and> s \<le> 100" and "0 \<le> x \<and> x \<le> 100" and "0 \<le> a \<and> a \<le> 100"
    and "0 \<le> l \<and> l \<le> 100" and "0 \<le> i \<and> i \<le> 100"
  shows "\<exists>n. calculateOverallMatch
                \<lparr>skillMatch = Number (Num s), experienceMatch = Number (Num x),
                 availabilityMatch = Number (Num a), locationMatch = Number (Num l),
                 interestMatch = Number (Num i)\<rparr> = Num (of_int n)
             \<and> 0 \<le> n \<and> n \<le> 100
             \<and> \<bar>of_int n - weighted_sum s x a l i\<bar> \<le> 1 / 2 + 1 / 100000000000"
  using assms by (rule overall_in_range)

theorem calculateOverallMatch_double_sum_witness:
  "calculateOverallMatch
     \<lparr>skillMatch = Number (Num 100), experienceMatch = Number (Num 50),
      availabilityMatch = Number (Num 75), locationMatch = Number (Num 50),
      interestMatch = Number (Num 40)\<rparr> = Num 72
   \<and> \<bar>72 - weighted_sum 100 50 75 50 40\<bar> \<le> 1 / 2 + 1 / 100000000000"
proof -
  obtain n :: int where n: "calculateOverallMatch
     \<lparr>skillMatch = Number (Num 100), experienceMatch = Number (Num 50),
      availabilityMatch = Number (Num 75), locationMatch = Number (Num 50),
      interestMatch = Number (Num 40)\<rparr> = Num (of_int n)"
      "\<bar>of_int n - weighted_sum 100 50 75 50 40\<bar> \<le> 1 / 2 + 1 / 100000000000"
    using calculateOverallMatch_double_sum[of 100 50 75 50 40] by auto
  have "(of_int n :: rat) = 72" using n(1) by (simp add: sample_overall)
  then show ?thesis using n(2) by (simp add: sample_overall)
qed

text \<open>
  Claim C1 as stated fails.  For the sub-scores 0, 100, 100, 25 and the double written
  13.333333333333332 the exact weighted sum is just below 39.5, whose nearest integer
  is 39; the sum accumulated in doubles is 39.5 and the function returns 40.  For the
  sub-scores 57, 46.75, 25.75, 60 and 23.25 the exact weighted sum is 45.5, which rounds
  to 46; the sum accumulated in doubles is just below 45.5 and the function returns 45.
\<close>

theorem calculateOverallMatch_counterexample:
  "0 \<le> (3752999689475413 / 281474976710656 :: rat)
   \<and> (3752999689475413 / 281474976710656 :: rat) \<le> 100
   \<and> calculateOverallMatch
       \<lparr>skillMatch = Number (Num 0), experienceMatch = Number (Num 100),
        availabilityMatch = Number (Num 100), locationMatch = Number (Num 25),
        interestMatch = Number (Num (3752999689475413 / 281474976710656))\<rparr> = Num 40
   \<and> weighted_sum 0 100 100 25 (3752999689475413 / 281474976710656) < 39 + 1 / 2
   \<and> 1 / 2 < \<bar>40 - weighted_sum 0 100 100 25 (3752999689475413 / 281474976710656)\<bar>
   \<and> calculateOverallMatch
       \<lparr>skillMatch = Number (Num 57), experienceMatch = Number (Num (187 / 4)),
        availabilityMatch = Number (Num (103 / 4)), locationMatch = Number (Num 60),
        interestMatch = Number (Num (93 / 4))\<rparr> = Num 45
   \<and> weighted_sum 57 (187 / 4) (103 / 4) 60 (93 / 4) = 45 + 1 / 2
   \<and> round_half_up (weighted_sum 57 (187 / 4) (103 / 4) 60 (93 / 4)) = 46"
  by (simp add: sample_overall weighted_sum_def round_half_up_def floor_unique)

section \<open>Properties of the status and feedback routes\<close>

lemma find_update_hit:
  assumes "List.find (\<lambda>m. match_id m = i) st = Some m0"
  shows "fst (findByIdAndUpdate i upd st) = Some (upd m0)"
  using assms by (induction st) (auto split: prod.splits if_splits)

lemma find_update_miss:
  assumes "List.find (\<lambda>m. match_id m = i) st = None"
  shows "findByIdAndUpdate i upd st = (None, st)"
  using assms by (induction st) (auto split: prod.splits if_splits)


lemma find_update_stored:
  assumes "List.find (\<lambda>m. match_id m = i) st = Some m0"
    and "\<And>m. match_id (upd m) = match_id m"
  shows "List.find (\<lambda>m. match_id m = i) (snd (findByIdAndUpdate i upd st)) = Some (upd m0)"
  using assms by (induction st) (auto split: prod.splits if_splits)

text \<open>
  Claim C3, as the code has it.  The route checks the requested status against the five
  names and nothing else: on an existing match every one of the five is accepted
  whatever the current status, and the stored status becomes the requested one.  A
  request with another status, or none, is answered 400 \<open>Invalid status\<close>; an
  identifier that names no match 404 \<open>Match not found\<close>; an identifier that is no
  ObjectId 500 \<open>Internal server error\<close>; all three leave the collection as it was.
  So every request either updates the match or is answered with an error.
\<close>

theorem update_status_any_transition:
  "(List.member valid_statuses new_status \<and> List.find (\<lambda>m. match_id m = i) st = Some m0 \<longrightarrow>
      fst (update_status t (Oid i) (Some new_status) st) =
        OkJson ''Match status updated'' (m0\<lparr>status := new_status, updatedAt := t\<rparr>)
      \<and> List.find (\<lambda>m. match_id m = i) (snd (update_status t (Oid i) (Some new_status) st)) =
        Some (m0\<lparr>status := new_status, updatedAt := t\<rparr>))
   \<and> (List.member valid_statuses new_status \<and> List.find (\<lambda>m. match_id m = i) st = None \<longrightarrow>
        update_status t (Oid i) (Some new_status) st = (ErrorJson 404 ''Match not found'', st))
   \<and> (List.member valid_statuses new_status \<longrightarrow>
        update_status t Malformed (Some new_status) st =
          (ErrorJson 500 ''Internal server error'', st))
   \<and> (\<not> List.member valid_statuses new_status \<longrightarrow>
        update_status t ref (Some new_status) st = (ErrorJson 400 ''Invalid status'', st))
   \<and> update_status t ref None st = (ErrorJson 400 ''Invalid status'', st)"
proof -
  let ?upd = "\<lambda>m. m\<lparr>status := new_status, updatedAt := t\<rparr>"
  have ok: "fst (update_status t (Oid i) (Some new_status) st) =
        OkJson ''Match status updated'' (?upd m0)
      \<and> List.find (\<lambda>m. match_id m = i) (snd (update_status t (Oid i) (Some new_status) st)) =
        Some (?upd m0)"
    if v: "List.member valid_statuses new_status"
      and f: "List.find (\<lambda>m. match_id m = i) st = Some m0"
  proof -
    obtain r st' where r: "findByIdAndUpdate i ?upd st = (r, st')"
      by (cases "findByIdAndUpdate i ?upd st")
    have hit: "r = Some (?upd m0)"
      using find_update_hit[OF f, of ?upd] r by simp
    have st': "st' = snd (findByIdAndUpdate i ?upd st)"
      by (simp add: r)
    have stored: "List.find (\<lambda>m. match_id m = i) st' = Some (?upd m0)"
      unfolding st' by (rule find_update_stored[OF f]) simp
    show ?thesis
      using v by (simp add: update_status_def r hit stored)
  qed
  have missing:
    "update_status t (Oid i) (Some new_status) st = (ErrorJson 404 ''Match not found'', st)"
    if v: "List.member valid_statuses new_status"
      and f: "List.find (\<lambda>m. match_id m = i) st = None"
    using v by (simp add: update_status_def find_update_miss[OF f])
  have malformed:
    "update_status t Malformed (Some new_status) st =
       (ErrorJson 500 ''Internal server error'', st)"
    if "List.member valid_statuses new_status"
    using that by (simp add: update_status_def)
  have invalid: "update_status t ref (Some new_status) st = (ErrorJson 400 ''Invalid status'', st)"
    if "\<not> List.member valid_statuses new_status"
    using that by (simp add: update_status_def)
  have absent: "update_status t ref None st = (ErrorJson 400 ''Invalid status'', st)"
    by (simp add: update_status_def)
  show ?thesis
    using ok missing malformed invalid absent by blast
qed

theorem update_status_any_transition_witness:
  "List.member valid_statuses ''viewed''
   \<and> List.find (\<lambda>m. match_id m = 1) [applied_match] = Some applied_match
   \<and> fst (update_status 9 (Oid 1) (Some ''viewed'') [applied_match]) =
       OkJson ''Match status updated'' (applied_match\<lparr>status := ''viewed'', updatedAt := 9\<rparr>)
   \<and> List.find (\<lambda>m. match_id m = 2) [applied_match] = None
   \<and> update_status 9 (Oid 2) (Some ''viewed'') [applied_match] =
       (ErrorJson 404 ''Match not found'', [applied_match])
   \<and> update_status 9 Malformed (Some ''viewed'') [applied_match] =
       (ErrorJson 500 ''Internal server error'', [applied_match])
   \<and> \<not> List.member valid_statuses ''archived''
   \<and> update_status 9 (Oid 1) (Some ''archived'') [applied_match] =
       (ErrorJson 400 ''Invalid status'', [applied_match])"
proof -
  have v: "List.member valid_statuses ''viewed''" and nv: "\<not> List.member valid_statuses ''archived''"
    by (simp_all add: valid_statuses_def)
  have f1: "List.find (\<lambda>m. match_id m = 1) [applied_match] = Some applied_match"
    and f2: "List.find (\<lambda>m. match_id m = 2) [applied_match] = None"
    by (simp_all add: applied_match_def)
  show ?thesis
    using v nv f1 f2
      update_status_any_transition[where new_status = "''viewed''" and i = 1
        and st = "[applied_match]" and ?m0.0 = applied_match and t = 9]
      update_status_any_transition[where new_status = "''viewed''" and i = 2
        and st = "[applied_match]" and t = 9]
      update_status_any_transition[where new_status = "''archived''" and i = 1
        and st = "[applied_match]" and t = 9 and ref = "Oid 1"]
    by simp
qed

text \<open>
  Claim C3 as stated fails: asked to move a match from \<open>applied\<close> back to \<open>pending\<close>,
  the route answers with success and stores the status \<open>pending\<close>.
\<close>

theorem applied_to_pending_counterexample:
  "status applied_match = ''applied''
   \<and> update_status 9 (Oid 1) (Some ''pending'') [applied_match] =
     (OkJson ''Match status updated'' (applied_match\<lparr>status := ''pending'', updatedAt := 9\<rparr>),
      [applied_match\<lparr>status := ''pending'', updatedAt := 9\<rparr>])"
  by (simp add: update_status_def valid_statuses_def applied_match_def)






section \<open>The creation threshold\<close>

lemma valid_number_cases:
  assumes "valid_number v"
  shows "\<exists>r. v = Number (Num r) \<and> 0 \<le> r \<and> r \<le> 100"
  using assms by (cases v rule: valid_number.cases) auto

text \<open>A document built from five valid factors passes the schema's validation.\<close>

lemma valid_factors_document:
  assumes "valid_number (skillMatch f)" and "valid_number (experienceMatch f)"
    and "valid_number (availabilityMatch f)" and "valid_number (locationMatch f)"
    and "valid_number (interestMatch f)"
  shows "matchSchema_valid (new_match st t u p (calculateOverallMatch f) f rs)"
proof -
  obtain s where s: "skillMatch f = Number (Num s)" "0 \<le> s \<and> s \<le> 100"
    using valid_number_cases[OF assms(1)] by auto
  obtain x where x: "experienceMatch f = Number (Num x)" "0 \<le> x \<and> x \<le> 100"
    using valid_number_cases[OF assms(2)] by auto
  obtain a where a: "availabilityMatch f = Number (Num a)" "0 \<le> a \<and> a \<le> 100"
    using valid_number_cases[OF assms(3)] by auto
  obtain l where l: "locationMatch f = Number (Num l)" "0 \<le> l \<and> l \<le> 100"
    using valid_number_cases[OF assms(4)] by auto
  obtain i where i: "interestMatch f = Number (Num i)" "0 \<le> i \<and> i \<le> 100"
    using valid_number_cases[OF assms(5)] by auto
  have f: "f = \<lparr>skillMatch = Number (Num s), experienceMatch = Number (Num x),
                 availabilityMatch = Number (Num a), locationMatch = Number (Num l),
                 interestMatch = Number (Num i)\<rparr>"
    using s(1) x(1) a(1) l(1) i(1) by (cases f) simp
  obtain n :: int where n: "calculateOverallMatch f = Num (of_int n)" "0 \<le> n" "n \<le> 100"
    using overall_in_range[OF s(2) x(2) a(2) l(2) i(2)] f by auto
  have "valid_number (Number (calculateOverallMatch f))"
    using n by simp
  then show ?thesis
    using assms by (simp add: matchSchema_valid_def new_match_def)
qed

text \<open>
  For a pair that reaches scoring with five valid factors, the loop body stores the
  document exactly when the overall score is at least 30, and otherwise leaves the state
  as it was.
\<close>

lemma threshold_gate_valid_factors:
  assumes "collaborators p = Some cs" and "some_collab uid cs = Inr False"
    and "findOne (store s) uid (project_id p) = None"
    and "compute_factors u p = Inr f"
    and "valid_number (skillMatch f)" and "valid_number (experienceMatch f)"
    and "valid_number (availabilityMatch f)" and "valid_number (locationMatch f)"
    and "valid_number (interestMatch f)"
  shows "store (fst (user_step e uid u p s)) =
           (if js_ge (calculateOverallMatch f) (Num 30)
            then store s @ [new_match (store s) (now e) uid (project_id p)
                              (calculateOverallMatch f) f (generateMatchReasons f)]
            else store s)
       \<and> snd (user_step e uid u p s) = None
       \<and> count_pair (store (fst (user_step e uid u p s))) uid (project_id p) =
           (if js_ge (calculateOverallMatch f) (Num 30) then 1 else 0)
       \<and> (\<not> js_ge (calculateOverallMatch f) (Num 30) \<longrightarrow> user_step e uid u p s = (s, None))"
proof -
  have step: "user_step e uid u p s = create_match e ''user'' uid (project_id p) f s"
    using assms(1-4) by (simp add: user_step_def)
  have ok: "matchSchema_valid (new_match (store s) (now e) uid (project_id p)
              (calculateOverallMatch f) f (generateMatchReasons f))"
    using assms(5-9) by (rule valid_factors_document)
  have zero: "count_pair (store s) uid (project_id p) = 0"
    using assms(3) by (simp add: findOne_None_count)
  show ?thesis
    using ok zero
    by (simp add: step create_match_def Let_def count_pair_append)
       (simp add: count_pair_def)
qed

text \<open>
  Claim C4.  The claim expects a pair that scores exactly 30 to be stored.  For the
  sample user and the project without required skills at Beginner level the skill factor
  is NaN, the overall score is exactly 30 and the threshold test passes; the document is
  handed to \<open>save\<close>, whose validation rejects the NaN factor, and the pair is left
  without a record.
\<close>

theorem threshold_pair_rejected:
  "compute_factors sample_user unskilled_project =
     Inr \<lparr>skillMatch = Number NaN, experienceMatch = Number (Num 50),
          availabilityMatch = Number (Num 50), locationMatch = Number (Num 50),
          interestMatch = Number (Num 50)\<rparr>
   \<and> calculateOverallMatch
       \<lparr>skillMatch = Number NaN, experienceMatch = Number (Num 50),
        availabilityMatch = Number (Num 50), locationMatch = Number (Num 50),
        interestMatch = Number (Num 50)\<rparr> = Num 30
   \<and> js_ge (Num 30) (Num 30)
   \<and> user_step sample_world 10 sample_user unskilled_project empty_sys =
       (empty_sys, Some ValidationError)
   \<and> count_pair
        (store (generateMatchesForUser (sample_env [unskilled_project] []) 10 empty_sys))
        10 25 = 0"
  by (simp add: pipeline_defs sample_fields sample_factors sample_overall count_pair_def)

section \<open>Failures of the collaborator services\<close>

lemma user_fetch_failure:
  assumes "get_user e uid = Inl err \<or> get_active_projects e = Inl err"
  shows "generateMatchesForUser e uid s = s\<lparr>metrics := metrics s @ [(''user'', ''error'')]\<rparr>"
  using assms
  by (auto simp: generateMatchesForUser_def try_generateMatchesForUser_def catch_error_def
      split: sum.splits)

lemma project_fetch_failure:
  assumes "get_project e pid = Inl err
      \<or> (get_project e pid = Inr p \<and> requiredSkills p = Some rs
          \<and> get_users_by_skills e (join_comma rs) = Inl err)"
  shows "generateMatchesForProject e pid s =
           s\<lparr>metrics := metrics s @ [(''project'', ''error'')]\<rparr>"
  using assms
  by (auto simp: generateMatchesForProject_def try_generateMatchesForProject_def catch_error_def
      split: sum.splits)

text \<open>
  Claim C7, as the code has it.  When the fetch of the triggering entity or of the
  candidate set fails, the generator's own \<open>catch\<close> takes the error: nothing changes
  but the error counter, so no match is written, and the generator returns normally.
  The handler therefore returns normally too and the consumer acknowledges the message.
\<close>

theorem fetch_failure_is_acknowledged:
  "((get_user e uid = Inl err \<or> get_active_projects e = Inl err)
      \<and> (rk = ''user.created'' \<or> rk = ''user.updated'') \<longrightarrow>
        consume_user_event e (Some \<lparr>content = Parsed (EventData uid), routingKey = rk\<rparr>) s =
          (s\<lparr>metrics := metrics s @ [(''user'', ''error'')]\<rparr>, Some Ack))
   \<and> ((get_project e pid = Inl err
        \<or> (get_project e pid = Inr p \<and> requiredSkills p = Some rs
            \<and> get_users_by_skills e (join_comma rs) = Inl err)) \<longrightarrow>
        consume_project_event e
          (Some \<lparr>content = Parsed (EventData pid), routingKey = ''project.created''\<rparr>) s =
          (s\<lparr>metrics := metrics s @ [(''project'', ''error'')]\<rparr>, Some Ack))"
proof -
  have a: "consume_user_event e (Some \<lparr>content = Parsed (EventData uid), routingKey = rk\<rparr>) s =
          (s\<lparr>metrics := metrics s @ [(''user'', ''error'')]\<rparr>, Some Ack)"
    if "get_user e uid = Inl err \<or> get_active_projects e = Inl err"
      and "rk = ''user.created'' \<or> rk = ''user.updated''"
    using that(2) user_fetch_failure[OF that(1), of s]
    by (auto simp: consume_user_event_def handleUserEvent_def)
  have b: "consume_project_event e
             (Some \<lparr>content = Parsed (EventData pid), routingKey = ''project.created''\<rparr>) s =
          (s\<lparr>metrics := metrics s @ [(''project'', ''error'')]\<rparr>, Some Ack)"
    if "get_project e pid = Inl err
        \<or> (get_project e pid = Inr p \<and> requiredSkills p = Some rs
            \<and> get_users_by_skills e (join_comma rs) = Inl err)"
    using project_fetch_failure[OF that, of s]
    by (simp add: consume_project_event_def handleProjectEvent_def)
  show ?thesis
    using a b by blast
qed

lemma offline_fetches:
  "get_active_projects offline_env = Inl HttpError"
  "get_project offline_env 77 = Inl HttpError"
  "get_user (sample_env [web_project] []) 999 = Inl HttpError"
  by (simp_all add: offline_env_def sample_env_def sample_fields)

theorem fetch_failure_is_acknowledged_witness:
  "get_active_projects offline_env = Inl HttpError
   \<and> consume_user_event offline_env
        (Some \<lparr>content = Parsed (EventData 10), routingKey = ''user.updated''\<rparr>) empty_sys
      = (empty_sys\<lparr>metrics := [(''user'', ''error'')]\<rparr>, Some Ack)
   \<and> get_project offline_env 77 = Inl HttpError
   \<and> consume_project_event offline_env
        (Some \<lparr>content = Parsed (EventData 77), routingKey = ''project.created''\<rparr>) empty_sys
      = (empty_sys\<lparr>metrics := [(''project'', ''error'')]\<rparr>, Some Ack)"
proof -
  have m: "metrics empty_sys = []"
    by (simp add: empty_sys_def)
  note T = fetch_failure_is_acknowledged[where e = offline_env and uid = 10 and err = HttpError
      and rk = "''user.updated''" and pid = 77 and s = empty_sys]
  show ?thesis
    using T offline_fetches(1,2) by (simp add: m)
qed

text \<open>
  Claim C7 as stated fails: with the project service unreachable, or with a user the
  user service does not know, the \<open>user.created\<close> event is answered with \<open>ack\<close>.
\<close>

theorem fetch_failure_counterexample:
  "get_active_projects offline_env = Inl HttpError
   \<and> consume_user_event offline_env
        (Some \<lparr>content = Parsed (EventData 10), routingKey = ''user.created''\<rparr>) empty_sys
      = (empty_sys\<lparr>metrics := [(''user'', ''error'')]\<rparr>, Some Ack)
   \<and> get_user (sample_env [web_project] []) 999 = Inl HttpError
   \<and> consume_user_event (sample_env [web_project] [])
        (Some \<lparr>content = Parsed (EventData 999), routingKey = ''user.created''\<rparr>) empty_sys
      = (empty_sys\<lparr>metrics := [(''user'', ''error'')]\<rparr>, Some Ack)"
  by (simp add: consume_user_event_def handleUserEvent_def pipeline_defs sample_fields)

section \<open>Degenerate factor inputs\<close>

lemma skill_NaN_without_required:
  "calculateSkillMatch (Some us) (Some []) os = NaN"
  by (simp add: calculateSkillMatch_def len_def Let_def)

text \<open>
  Claim C5.  With an empty list of required skills and any list of user skills the
  claim expects the value 0.  The guard of \<open>calculateSkillMatch\<close> lets the empty array
  through (an array is never falsy), the coverage ratio is \<open>0/0\<close>, and the function
  returns NaN for every list of user skills and every list of optional skills.
\<close>

theorem calculateSkillMatch_empty_required:
  "calculateSkillMatch (Some us) (Some []) os = NaN
   \<and> calculateSkillMatch (Some [''javascript'']) (Some []) (Some []) \<noteq> Num 0"
  by (simp add: calculateSkillMatch_def len_def Let_def)

text \<open>
  Claim C9.  The claim gives every unrecognised experience string the level 1, hence
  the score 100 against a Beginner project.  The string \<open>constructor\<close> is not a tier,
  yet \<open>experienceMap["constructor"]\<close> is the inherited function \<open>Object\<close>, which is
  truthy, so the default 1 is not taken; the subtraction yields NaN and so does the
  function.
\<close>

theorem calculateExperienceMatch_constructor:
  "calculateExperienceMatch (Some ''constructor'') (Some ''Beginner'') = NaN
   \<and> level_of experienceMap (Some ''constructor'') = 1
   \<and> level_of difficultyMap (Some ''Beginner'') = 1"
  by (simp add: calculateExperienceMatch_def key_string_def obj_get_def experienceMap_def
      difficultyMap_def object_prototype_keys_def js_sub_def level_of_def)

lemma interest_NaN_without_tags:
  "calculateInterestMatch
     (Some \<lparr>projectTypes = Some types, interests = Some ints, availability = av\<rparr>)
     cat (Some []) = NaN"
  by (simp add: calculateInterestMatch_def len_def Let_def)

lemma overall_skill_NaN:
  "calculateOverallMatch
     \<lparr>skillMatch = Number NaN, experienceMatch = x, availabilityMatch = a,
      locationMatch = l, interestMatch = i\<rparr>
   = calculateOverallMatch
     \<lparr>skillMatch = Number (Num 0), experienceMatch = x, availabilityMatch = a,
      locationMatch = l, interestMatch = i\<rparr>"
  by (simp only: calculateOverallMatch_def overall_of_entries_def entries_def add_entry_def
      foldl.simps fst_conv snd_conv factors.simps or_zero_Num or_zero_NaN)

lemma overall_interest_NaN:
  "calculateOverallMatch
     \<lparr>skillMatch = s, experienceMatch = x, availabilityMatch = a,
      locationMatch = l, interestMatch = Number NaN\<rparr>
   = calculateOverallMatch
     \<lparr>skillMatch = s, experienceMatch = x, availabilityMatch = a,
      locationMatch = l, interestMatch = Number (Num 0)\<rparr>"
  by (simp only: calculateOverallMatch_def overall_of_entries_def entries_def add_entry_def
      foldl.simps fst_conv snd_conv factors.simps or_zero_Num or_zero_NaN)

text \<open>A document with a NaN factor is never stored: either the score is below 30, or
  the validation of \<open>save\<close> rejects it.\<close>

lemma create_match_invalid_factor:
  assumes "\<not> valid_number (skillMatch f) \<or> \<not> valid_number (interestMatch f)"
  shows "create_match e label u p f st =
           (if js_ge (calculateOverallMatch f) (Num 30) then (st, Some ValidationError)
            else (st, None))"
  using assms by (auto simp: create_match_def Let_def matchSchema_valid_def new_match_def)

text \<open>
  A factor that is not a number at all is not caught by \<open>score || 0\<close>: an inherited
  property in the availability factor makes the overall score NaN, and then the pair is
  skipped without record or error.
\<close>

lemma overall_NaN_with_inherited_availability:
  "calculateOverallMatch
     \<lparr>skillMatch = Number NaN, experienceMatch = Number (Num x),
      availabilityMatch = ProtoObj, locationMatch = Number (Num l),
      interestMatch = Number (Num i)\<rparr> = NaN"
proof -
  have w: "\<And>r. to_number (js_or (Some ProtoObj) (Number (Num 0))) = NaN"
    by simp
  have m: "\<And>r. js_mul NaN (Num r) = NaN" "\<And>n. js_add n NaN = NaN"
    "\<And>n. js_add NaN n = NaN"
    subgoal for r by simp
    subgoal for n by (cases n) simp_all
    subgoal for n by (cases n) simp_all
    done
  show ?thesis
    unfolding calculateOverallMatch_def overall_of_entries_def entries_def add_entry_def
    by (simp only: foldl.simps fst_conv snd_conv factors.simps or_zero_Num or_zero_NaN
        weight_of_factor w m js_round.simps)
qed

text \<open>
  Claim C10, as the code has it.  An empty list of required skills makes
  \<open>calculateSkillMatch\<close> NaN, and an empty list of tags with declared project types and
  interests makes \<open>calculateInterestMatch\<close> NaN.  With the other four factors numbers
  between 0 and 100, the expression \<open>score || 0\<close> in \<open>calculateOverallMatch\<close> turns
  the NaN factor into 0: the overall score is the score of the same factors with 0 in
  the place of NaN, an integer between 0 and 100 within rounding of the weighted sum of
  the other four, not NaN.  The threshold test is made on that number: below 30 the pair is
  skipped without record or error; from 30 on the document is handed to \<open>save\<close>, whose
  validation rejects the NaN factor, so no record is written and an error is raised.
\<close>

theorem nan_factor_counts_as_zero:
  assumes "0 \<le> s \<and> s \<le> 100" and "0 \<le> x \<and> x \<le> 100" and "0 \<le> a \<and> a \<le> 100"
    and "0 \<le> l \<and> l \<le> 100" and "0 \<le> i \<and> i \<le> 100"
  shows "calculateSkillMatch (Some us) (Some []) os = NaN
   \<and> calculateInterestMatch
       (Some \<lparr>projectTypes = Some types, interests = Some ints, availability = av\<rparr>)
       cat (Some []) = NaN
   \<and> (\<exists>n. calculateOverallMatch
            \<lparr>skillMatch = Number NaN, experienceMatch = Number (Num x),
             availabilityMatch = Number (Num a), locationMatch = Number (Num l),
             interestMatch = Number (Num i)\<rparr> = Num (of_int n)
          \<and> 0 \<le> n \<and> n \<le> 100
          \<and> \<bar>of_int n - weighted_sum 0 x a l i\<bar> \<le> 1 / 2 + 1 / 100000000000)
   \<and> (\<exists>n. calculateOverallMatch
            \<lparr>skillMatch = Number (Num s), experienceMatch = Number (Num x),
             availabilityMatch = Number (Num a), locationMatch = Number (Num l),
             interestMatch = Number NaN\<rparr> = Num (of_int n)
          \<and> 0 \<le> n \<and> n \<le> 100
          \<and> \<bar>of_int n - weighted_sum s x a l 0\<bar> \<le> 1 / 2 + 1 / 100000000000)
   \<and> create_match e label u p
        \<lparr>skillMatch = Number NaN, experienceMatch = Number (Num x),
         availabilityMatch = Number (Num a), locationMatch = Number (Num l),
         interestMatch = Number (Num i)\<rparr> st =
       (if js_ge (calculateOverallMatch
            \<lparr>skillMatch = Number NaN, experienceMatch = Number (Num x),
             availabilityMatch = Number (Num a), locationMatch = Number (Num l),
             interestMatch = Number (Num i)\<rparr>) (Num 30)
        then (st, Some ValidationError) else (st, None))
   \<and> create_match e label u p
        \<lparr>skillMatch = Number (Num s), experienceMatch = Number (Num x),
         availabilityMatch = Number (Num a), locationMatch = Number (Num l),
         interestMatch = Number NaN\<rparr> st =
       (if js_ge (calculateOverallMatch
            \<lparr>skillMatch = Number (Num s), experienceMatch = Number (Num x),
             availabilityMatch = Number (Num a), locationMatch = Number (Num l),
             interestMatch = Number NaN\<rparr>) (Num 30)
        then (st, Some ValidationError) else (st, None))"
proof -
  have zero: "(0::rat) \<le> 0 \<and> (0::rat) \<le> 100"
    by simp
  have c1: "calculateSkillMatch (Some us) (Some []) os = NaN"
    by (rule skill_NaN_without_required)
  have c2: "calculateInterestMatch
       (Some \<lparr>projectTypes = Some types, interests = Some ints, availability = av\<rparr>)
       cat (Some []) = NaN"
    by (rule interest_NaN_without_tags)
  have c3: "\<exists>n. calculateOverallMatch
            \<lparr>skillMatch = Number NaN, experienceMatch = Number (Num x),
             availabilityMatch = Number (Num a), locationMatch = Number (Num l),
             interestMatch = Number (Num i)\<rparr> = Num (of_int n)
          \<and> 0 \<le> n \<and> n \<le> 100
          \<and> \<bar>of_int n - weighted_sum 0 x a l i\<bar> \<le> 1 / 2 + 1 / 100000000000"
    using overall_in_range[OF zero assms(2) assms(3) assms(4) assms(5)]
    by (simp only: overall_skill_NaN)
  have c4: "\<exists>n. calculateOverallMatch
            \<lparr>skillMatch = Number (Num s), experienceMatch = Number (Num x),
             availabilityMatch = Number (Num a), locationMatch = Number (Num l),
             interestMatch = Number NaN\<rparr> = Num (of_int n)
          \<and> 0 \<le> n \<and> n \<le> 100
          \<and> \<bar>of_int n - weighted_sum s x a l 0\<bar> \<le> 1 / 2 + 1 / 100000000000"
    using overall_in_range[OF assms(1) assms(2) assms(3) assms(4) zero]
    by (simp only: overall_interest_NaN)
  have c5: "create_match e label u p
        \<lparr>skillMatch = Number NaN, experienceMatch = Number (Num x),
         availabilityMatch = Number (Num a), locationMatch = Number (Num l),
         interestMatch = Number (Num i)\<rparr> st =
       (if js_ge (calculateOverallMatch
            \<lparr>skillMatch = Number NaN, experienceMatch = Number (Num x),
             availabilityMatch = Number (Num a), locationMatch = Number (Num l),
             interestMatch = Number (Num i)\<rparr>) (Num 30)
        then (st, Some ValidationError) else (st, None))"
    by (rule create_match_invalid_factor) simp
  have c6: "create_match e label u p
        \<lparr>skillMatch = Number (Num s), experienceMatch = Number (Num x),
         availabilityMatch = Number (Num a), locationMatch = Number (Num l),
         interestMatch = Number NaN\<rparr> st =
       (if js_ge (calculateOverallMatch
            \<lparr>skillMatch = Number (Num s), experienceMatch = Number (Num x),
             availabilityMatch = Number (Num a), locationMatch = Number (Num l),
             interestMatch = Number NaN\<rparr>) (Num 30)
        then (st, Some ValidationError) else (st, None))"
    by (rule create_match_invalid_factor) simp
  show ?thesis
    using c1 c2 c3 c4 c5 c6 by (intro conjI)
qed

theorem nan_factor_counts_as_zero_witness:
  "((0::rat) \<le> 70 \<and> (70::rat) \<le> 100) \<and> ((0::rat) \<le> 100 \<and> (100::rat) \<le> 100)
   \<and> ((0::rat) \<le> 50 \<and> (50::rat) \<le> 100)
   \<and> create_match sample_world ''user'' 10 21
        \<lparr>skillMatch = Number NaN, experienceMatch = Number (Num 100),
         availabilityMatch = Number (Num 50), locationMatch = Number (Num 50),
         interestMatch = Number (Num 50)\<rparr> empty_sys = (empty_sys, Some ValidationError)
   \<and> create_match sample_world ''user'' 11 24
        \<lparr>skillMatch = Number (Num 70), experienceMatch = Number (Num 100),
         availabilityMatch = Number (Num 50), locationMatch = Number (Num 50),
         interestMatch = Number NaN\<rparr> empty_sys = (empty_sys, Some ValidationError)"
proof -
  have r: "(0::rat) \<le> 70 \<and> (70::rat) \<le> 100" "(0::rat) \<le> 100 \<and> (100::rat) \<le> 100"
    "(0::rat) \<le> 50 \<and> (50::rat) \<le> 100"
    by simp_all
  note T = nan_factor_counts_as_zero[OF r(1) r(2) r(3) r(3) r(3),
      where e = sample_world and label = "''user''" and st = empty_sys]
  have a: "create_match sample_world ''user'' 10 21
        \<lparr>skillMatch = Number NaN, experienceMatch = Number (Num 100),
         availabilityMatch = Number (Num 50), locationMatch = Number (Num 50),
         interestMatch = Number (Num 50)\<rparr> empty_sys = (empty_sys, Some ValidationError)"
    using T[where u = 10 and p = 21, THEN conjunct2, THEN conjunct2, THEN conjunct2,
        THEN conjunct2, THEN conjunct1]
    by (simp add: sample_overall)
  have b: "create_match sample_world ''user'' 11 24
        \<lparr>skillMatch = Number (Num 70), experienceMatch = Number (Num 100),
         availabilityMatch = Number (Num 50), locationMatch = Number (Num 50),
         interestMatch = Number NaN\<rparr> empty_sys = (empty_sys, Some ValidationError)"
    using T[where u = 11 and p = 24, THEN conjunct2, THEN conjunct2, THEN conjunct2,
        THEN conjunct2, THEN conjunct2]
    by (simp add: sample_overall)
  show ?thesis
    using r a b by (intro conjI) simp_all
qed

text \<open>
  Claim C10 as stated fails.  For the sample user and the project without required
  skills the skill factor is NaN, yet the overall score is 40 and the test \<open>40 >= 30\<close>
  is true: the pair is not silently skipped, its document is handed to \<open>save\<close>, the
  validation error is raised and the generator counts an error.
\<close>

theorem nan_factor_counterexample:
  "calculateSkillMatch (Some [''JavaScript'', ''React'']) (Some []) (Some []) = NaN
   \<and> compute_factors sample_user open_project =
       Inr \<lparr>skillMatch = Number NaN, experienceMatch = Number (Num 100),
            availabilityMatch = Number (Num 50), locationMatch = Number (Num 50),
            interestMatch = Number (Num 50)\<rparr>
   \<and> calculateOverallMatch
       \<lparr>skillMatch = Number NaN, experienceMatch = Number (Num 100),
        availabilityMatch = Number (Num 50), locationMatch = Number (Num 50),
        interestMatch = Number (Num 50)\<rparr> = Num 40
   \<and> calculateOverallMatch
       \<lparr>skillMatch = Number NaN, experienceMatch = Number (Num 100),
        availabilityMatch = Number (Num 50), locationMatch = Number (Num 50),
        interestMatch = Number (Num 50)\<rparr> \<noteq> NaN
   \<and> js_ge (Num 40) (Num 30)
   \<and> user_step sample_world 10 sample_user open_project empty_sys =
       (empty_sys, Some ValidationError)
   \<and> generateMatchesForUser (sample_env [open_project] []) 10 empty_sys =
       empty_sys\<lparr>metrics := [(''user'', ''error'')]\<rparr>"
  by (simp add: pipeline_defs sample_fields sample_factors sample_overall
      skill_NaN_without_required)

end
